theory Spec2Isabelle
  imports Main
begin

section \<open>Strings and paths\<close>

text \<open>
  The sync engine is TypeScript on Node. A JavaScript string is modelled as a \<open>string\<close>
  (a list of bytes, the UTF-8 encoding of the text). The functions of Node's \<open>path\<close>
  module are modelled for a POSIX host, following the library's own algorithms.
\<close>

definition startsWith :: "string \<Rightarrow> string \<Rightarrow> bool" where
  "startsWith s p = (take (length p) s = p)"

text \<open>The idiom \<^verbatim>\<open>p.startsWith('/') ? p.substring(1) : p\<close> of the handlers and of S3Service.\<close>

definition dropLeadingSlash :: "string \<Rightarrow> string" where
  "dropLeadingSlash p = (if startsWith p ''/'' then drop 1 p else p)"

text \<open>\<^verbatim>\<open>s.replace(/\\/g, '/')\<close>: every backslash becomes a slash.\<close>

definition backslashToSlash :: "string \<Rightarrow> string" where
  "backslashToSlash s = map (\<lambda>c. if c = CHR 0x5C then CHR ''/'' else c) s"

fun split_on :: "char \<Rightarrow> string \<Rightarrow> string list" where
  "split_on c [] = [[]]"
| "split_on c (x # xs) =
     (if x = c then [] # split_on c xs
      else (case split_on c xs of [] \<Rightarrow> [[x]] | s # ss \<Rightarrow> (x # s) # ss))"

fun intercalate :: "string \<Rightarrow> string list \<Rightarrow> string" where
  "intercalate sep [] = []"
| "intercalate sep [s] = s"
| "intercalate sep (s # t # ss) = s @ sep @ intercalate sep (t # ss)"

text \<open>
  \<open>normalizeString\<close> of Node's path module on the segments of a path: empty segments and
  \<open>.\<close> are dropped, \<open>..\<close> removes the segment before it, and is kept only above the
  start of a relative path. \<open>acc\<close> is the stack of segments kept so far, last first.
\<close>

fun normalizeString :: "bool \<Rightarrow> string list \<Rightarrow> string list \<Rightarrow> string list" where
  "normalizeString allowAboveRoot acc [] = rev acc"
| "normalizeString allowAboveRoot acc (s # ss) =
     (if s = [] \<or> s = ''.'' then normalizeString allowAboveRoot acc ss
      else if s = ''..'' then
        (case acc of
           [] \<Rightarrow> normalizeString allowAboveRoot (if allowAboveRoot then [''..''] else []) ss
         | a # acc' \<Rightarrow>
             if a = ''..''
             then normalizeString allowAboveRoot (if allowAboveRoot then ''..'' # acc else acc) ss
             else normalizeString allowAboveRoot acc' ss)
      else normalizeString allowAboveRoot (s # acc) ss)"

definition path_isAbsolute :: "string \<Rightarrow> bool" where
  "path_isAbsolute p = (case p of [] \<Rightarrow> False | c # _ \<Rightarrow> c = CHR ''/'')"

definition path_normalize :: "string \<Rightarrow> string" where
  "path_normalize p =
     (if p = [] then ''.''
      else
        let isAbsolute = path_isAbsolute p;
            trailingSeparator = (last p = CHR ''/'');
            q = intercalate ''/'' (normalizeString (\<not> isAbsolute) [] (split_on CHR ''/'' p))
        in if q = [] then (if isAbsolute then ''/'' else if trailingSeparator then ''./'' else ''.'')
           else (if isAbsolute then ''/'' else []) @ q @ (if trailingSeparator then ''/'' else []))"

definition path_join :: "string list \<Rightarrow> string" where
  "path_join args =
     (let joined = intercalate ''/'' (filter (\<lambda>a. a \<noteq> []) args)
      in if joined = [] then ''.'' else path_normalize joined)"

definition path_basename :: "string \<Rightarrow> string" where
  "path_basename p =
     rev (takeWhile (\<lambda>c. c \<noteq> CHR ''/'') (dropWhile (\<lambda>c. c = CHR ''/'') (rev p)))"

definition path_dirname :: "string \<Rightarrow> string" where
  "path_dirname p =
     (if p = [] then ''.''
      else
        let hasRoot = path_isAbsolute p;
            r = dropWhile (\<lambda>c. c \<noteq> CHR ''/'') (dropWhile (\<lambda>c. c = CHR ''/'') (rev (tl p)))
        in if r = [] then (if hasRoot then ''/'' else ''.'')
           else if hasRoot \<and> length r = 1 then ''//''
           else take (length r) p)"

text \<open>
  \<open>path.resolve\<close> of one path, as the segments of the absolute result; a relative path
  is resolved against the working directory.
\<close>

definition resolve_segments :: "string \<Rightarrow> string \<Rightarrow> string list" where
  "resolve_segments cwd p =
     normalizeString False []
       (split_on CHR ''/'' (if path_isAbsolute p then p else if p = [] then cwd else cwd @ ''/'' @ p))"

fun common_prefix_length :: "string list \<Rightarrow> string list \<Rightarrow> nat" where
  "common_prefix_length (a # as) (b # bs) = (if a = b then Suc (common_prefix_length as bs) else 0)"
| "common_prefix_length _ _ = 0"

definition path_relative :: "string \<Rightarrow> string \<Rightarrow> string \<Rightarrow> string" where
  "path_relative cwd from to =
     (if from = to then []
      else
        let fs = resolve_segments cwd from;
            ts = resolve_segments cwd to;
            n = common_prefix_length fs ts
        in intercalate ''/'' (replicate (length fs - n) ''..'' @ drop n ts))"

subsection \<open>Base64 and ISO-8601\<close>

text \<open>\<^verbatim>\<open>Buffer.from(s).toString('base64')\<close>, on the bytes of the string.\<close>

definition b64_char :: "nat \<Rightarrow> char" where
  "b64_char n =
     ''ABCDEFGHIJKLMNOPQRSTUVWXYZabcdefghijklmnopqrstuvwxyz0123456789+/'' ! (n mod 64)"

fun base64_bytes :: "nat list \<Rightarrow> string" where
  "base64_bytes [] = []"
| "base64_bytes [a] = [b64_char (a div 4), b64_char ((a mod 4) * 16), CHR ''='', CHR ''='']"
| "base64_bytes [a, b] =
     [b64_char (a div 4), b64_char ((a mod 4) * 16 + b div 16), b64_char ((b mod 16) * 4),
      CHR ''='']"
| "base64_bytes (a # b # c # rest) =
     [b64_char (a div 4), b64_char ((a mod 4) * 16 + b div 16),
      b64_char ((b mod 16) * 4 + c div 64), b64_char (c mod 64)] @ base64_bytes rest"

definition toBase64 :: "string \<Rightarrow> string" where
  "toBase64 s = base64_bytes (map of_char s)"

text \<open>
  A JavaScript \<open>Date\<close> is a time value, in milliseconds since the epoch, or the invalid
  date that \<^verbatim>\<open>new Date(text)\<close> gives for text it cannot parse. Comparing dates with
  \<open><\<close>, \<open>>\<close> or \<open><=\<close> compares the time values as numbers; the invalid date is NaN
  there, and every comparison with NaN is false.
\<close>

datatype Date = TimeValue int | Invalid_Date

fun date_gt :: "Date \<Rightarrow> Date \<Rightarrow> bool" where
  "date_gt (TimeValue a) (TimeValue b) = (a > b)"
| "date_gt _ _ = False"

fun date_le :: "Date \<Rightarrow> Date \<Rightarrow> bool" where
  "date_le (TimeValue a) (TimeValue b) = (a \<le> b)"
| "date_le _ _ = False"

fun decimal :: "nat \<Rightarrow> nat \<Rightarrow> string" where
  "decimal 0 n = []"
| "decimal (Suc width) n = decimal width (n div 10) @ [''0123456789'' ! (n mod 10)]"

text \<open>
  The proleptic Gregorian date (year, month, day) of a day number counted from 1970-01-01:
  the day within its 400-year era, the year within the era, the day within the year
  (counted from 1 March), and from that the month and the day.
\<close>

definition civil_from_doy :: "int \<Rightarrow> int \<Rightarrow> int \<times> int \<times> int" where
  "civil_from_doy y doy =
     (let mp = (5 * doy + 2) div 153;
          d = doy - (153 * mp + 2) div 5 + 1;
          m = (if mp < 10 then mp + 3 else mp - 9)
      in (y + (if m \<le> 2 then 1 else 0), m, d))"

definition civil_from_yoe :: "int \<Rightarrow> int \<Rightarrow> int \<Rightarrow> int \<times> int \<times> int" where
  "civil_from_yoe era doe yoe =
     civil_from_doy (yoe + era * 400) (doe - (365 * yoe + yoe div 4 - yoe div 100))"

definition civil_from_doe :: "int \<Rightarrow> int \<Rightarrow> int \<times> int \<times> int" where
  "civil_from_doe era doe =
     civil_from_yoe era doe ((doe - doe div 1460 + doe div 36524 - doe div 146096) div 365)"

definition civil_from_days :: "int \<Rightarrow> int \<times> int \<times> int" where
  "civil_from_days z = civil_from_doe ((z + 719468) div 146097) ((z + 719468) mod 146097)"

text \<open>
  The ISO-8601 text of a time value, as \<^verbatim>\<open>Date.prototype.toISOString\<close> writes it:
  \<open>YYYY-MM-DDTHH:mm:ss.sssZ\<close> in UTC, with a signed six-digit year outside 0..9999.
\<close>

definition iso_8601 :: "int \<Rightarrow> string" where
  "iso_8601 t =
     (let ms = t mod 86400000;
          (y, m, d) = civil_from_days (t div 86400000);
          year = (if 0 \<le> y \<and> y \<le> 9999 then decimal 4 (nat y)
                  else (if y < 0 then ''-'' else ''+'') @ decimal 6 (nat \<bar>y\<bar>))
      in year @ ''-'' @ decimal 2 (nat m) @ ''-'' @ decimal 2 (nat d) @ ''T''
         @ decimal 2 (nat (ms div 3600000)) @ '':''
         @ decimal 2 (nat ((ms div 60000) mod 60)) @ '':''
         @ decimal 2 (nat ((ms div 1000) mod 60)) @ ''.''
         @ decimal 3 (nat (ms mod 1000)) @ ''Z'')"

text \<open>The time values of a \<open>Date\<close>: at most 8.64e15 milliseconds from the epoch.\<close>

definition valid_time :: "int \<Rightarrow> bool" where
  "valid_time t = (\<bar>t\<bar> \<le> 8640000000000000)"

section \<open>The outside world\<close>

text \<open>
  The engine talks to the local file system and to an S3-compatible object store. Both are
  outside the program: the model takes their answers from a \<open>world\<close>, and records every
  operation the program performs on them, in order, in a history. Each answer may depend on
  the history so far, so that a file written earlier can be found later, and a missing
  store can stay missing.
\<close>

text \<open>
  A thrown JavaScript value, as far as the program looks at it: \<^verbatim>\<open>error.name\<close> and
  \<^verbatim>\<open>error.$metadata?.httpStatusCode\<close>.
\<close>

record js_error =
  err_name :: "string option"
  httpStatusCode :: "nat option"

definition fs_error :: js_error where
  "fs_error = \<lparr>err_name = Some ''Error'', httpStatusCode = None\<rparr>"

definition empty_body_error :: js_error where
  "empty_body_error = \<lparr>err_name = Some ''Error'', httpStatusCode = None\<rparr>"

definition range_error :: js_error where
  "range_error = \<lparr>err_name = Some ''RangeError'', httpStatusCode = None\<rparr>"

text \<open>
  \<^verbatim>\<open>Date.prototype.toISOString\<close>: the ISO-8601 text of a valid date; for the invalid date
  it throws a RangeError.
\<close>

definition toISOString :: "Date \<Rightarrow> js_error + string" where
  "toISOString d =
     (case d of
        TimeValue t \<Rightarrow> if valid_time t then Inr (iso_8601 t) else Inl range_error
      | Invalid_Date \<Rightarrow> Inl range_error)"

text \<open>
  \<open>fs.Stats\<close>: \<open>isDirectory\<close> and \<open>isFile\<close> are what \<open>stat\<close> reports for the target of
  the path (a symbolic link is followed); \<open>birthtime\<close> and \<open>mtime\<close> are \<open>Date\<close> objects,
  invalid when the file's time stamp lies outside the range of \<open>Date\<close>.
\<close>

record Stats =
  isDirectory :: bool
  isFile :: bool
  st_size :: nat
  birthtime :: Date
  mtime :: Date

text \<open>
  What lies at a path. The constructor is the kind that \<^verbatim>\<open>readdir(..., {withFileTypes: true})\<close>
  reports for the entry (\<open>Other\<close>: a symbolic link, socket, pipe or device, for which both
  \<open>isFile()\<close> and \<open>isDirectory()\<close> of the directory entry are false).
  \<open>stat_result\<close> is \<open>None\<close> when \<open>stat\<close> on the entry throws; \<open>openable\<close> says whether
  \<^verbatim>\<open>fs.openSync(path, 'r+')\<close> succeeds; \<open>bytes\<close> is \<open>None\<close> when reading the file throws;
  \<open>readable\<close> says whether \<open>readdir\<close> on the directory succeeds.
\<close>

datatype fsentry =
    File (stat_result: "Stats option") (openable: bool) (bytes: "string option")
  | Other (stat_result: "Stats option") (openable: bool) (bytes: "string option")
  | Dir (stat_result: "Stats option") (readable: bool) (entries: "(string \<times> fsentry) list")

fun walk :: "fsentry \<Rightarrow> string list \<Rightarrow> fsentry option" where
  "walk e [] = Some e"
| "walk (Dir st r es) (s # ss) = (case map_of es s of None \<Rightarrow> None | Some e \<Rightarrow> walk e ss)"
| "walk _ (s # ss) = None"

datatype fs_op =
    MkdirP string
  | WriteFile string string
  | CopyFile string string
  | Rename string string
  | Unlink string
  | Rm string

subsection \<open>The object store\<close>

text \<open>The commands of the S3 client that the engine sends, with bucket and key.\<close>

datatype s3_command =
    ListObjectsV2Command string
  | HeadObjectCommand string string
  | GetObjectCommand string string
  | PutObjectCommand string string string "(string \<times> string) list"
  | DeleteObjectCommand string string

text \<open>The responses, with the fields the engine reads.\<close>

record S3Object =
  Key :: "string option"

record ListObjectsV2Output =
  Contents :: "S3Object list option"

record HeadObjectOutput =
  resp_LastModified :: "Date option"
  resp_ETag :: "string option"
  resp_Metadata :: "(string \<times> string) list option"

text \<open>The body of a download is a stream: reading it to the end gives the bytes or throws.\<close>

datatype body_stream = Bytes string | Broken js_error

record GetObjectOutput =
  Body :: "body_stream option"

subsection \<open>The tree snapshot\<close>

datatype node_type = type_file | type_folder

datatype FileSystemNode =
  FileSystemNode
    (node_id: string)
    (name: string)
    (node_type: node_type)
    (path: string)
    (node_size: "nat option")
    (createdAt: "Date option")
    (modifiedAt: "Date option")
    (children: "FileSystemNode list option")
    (isLeaf: bool)

subsection \<open>Effects and the world\<close>

text \<open>
  \<open>Assign_fileSystemData\<close> is the assignment to the module variable that caches the
  snapshot; \<open>Send_file_system_updated\<close> is the message to the renderer; \<open>Emit\<close> is
  \<^verbatim>\<open>watcher.emit(event, path)\<close>.
\<close>

datatype effect =
    S3 s3_command
  | FS fs_op
  | Assign_fileSystemData "FileSystemNode list"
  | Send_file_system_updated "FileSystemNode list"
  | Emit string string

text \<open>
  Of the world, \<open>userFilesDir\<close> is what \<open>getUserFilesDir()\<close> returns, \<open>watcher\<close> says
  whether the module variable \<open>watcher\<close> holds a watcher, \<open>window_open\<close> whether the main
  window exists and is not destroyed. \<open>Date_parse\<close> is \<^verbatim>\<open>new Date(text)\<close>, and
  \<open>decode_utf8\<close> is the decoding that \<^verbatim>\<open>readFile(path, 'utf-8')\<close> applies to the bytes of
  a file (bytes that are not UTF-8 become U+FFFD); both belong to the runtime and are
  taken as given. The other fields are the answers of the file system and of the store.
\<close>

record world =
  userFilesDir :: string
  cwd :: string
  watcher :: bool
  window_open :: bool
  Date_parse :: "string \<Rightarrow> Date"
  decode_utf8 :: "string \<Rightarrow> string"
  root :: "effect list \<Rightarrow> fsentry"
  fs_outcome :: "effect list \<Rightarrow> fs_op \<Rightarrow> js_error option"
  list_objects :: "effect list \<Rightarrow> string \<Rightarrow> js_error + ListObjectsV2Output"
  head_object :: "effect list \<Rightarrow> string \<Rightarrow> js_error + HeadObjectOutput"
  get_object :: "effect list \<Rightarrow> string \<Rightarrow> js_error + GetObjectOutput"
  put_object :: "effect list \<Rightarrow> s3_command \<Rightarrow> js_error option"
  delete_object :: "effect list \<Rightarrow> string \<Rightarrow> js_error option"

text \<open>
  A computation starts from the history so far and returns a value or throws, together
  with the history extended by what it did. \<open>io_bind\<close> is sequencing (\<open>await\<close> included),
  \<open>io_catch\<close> is \<^verbatim>\<open>try { ... } catch (error) { ... }\<close>.
\<close>

type_synonym 'a io = "effect list \<Rightarrow> (js_error + 'a) \<times> effect list"

definition pure :: "'a \<Rightarrow> 'a io" where
  "pure a = (\<lambda>h. (Inr a, h))"

definition throw :: "js_error \<Rightarrow> 'a io" where
  "throw e = (\<lambda>h. (Inl e, h))"

definition io_bind :: "'a io \<Rightarrow> ('a \<Rightarrow> 'b io) \<Rightarrow> 'b io" where
  "io_bind m f = (\<lambda>h. case m h of (Inl e, h') \<Rightarrow> (Inl e, h') | (Inr a, h') \<Rightarrow> f a h')"

definition io_catch :: "'a io \<Rightarrow> (js_error \<Rightarrow> 'a io) \<Rightarrow> 'a io" where
  "io_catch m c = (\<lambda>h. case m h of (Inl e, h') \<Rightarrow> c e h' | (Inr a, h') \<Rightarrow> (Inr a, h'))"

definition tell :: "effect \<Rightarrow> unit io" where
  "tell x = (\<lambda>h. (Inr (), h @ [x]))"

text \<open>A \<open>for\<close> loop whose iterations are given: they run in order, and a throw ends the loop.\<close>

fun run_all :: "unit io list \<Rightarrow> unit io" where
  "run_all [] = pure ()"
| "run_all (m # ms) = io_bind m (\<lambda>_. run_all ms)"

text \<open>The first exception of a list of results, or all the values.\<close>

fun collect :: "(js_error + 'a) list \<Rightarrow> js_error + 'a list" where
  "collect [] = Inr []"
| "collect (Inl e # rs) = Inl e"
| "collect (Inr a # rs) = (case collect rs of Inl e \<Rightarrow> Inl e | Inr as \<Rightarrow> Inr (a # as))"

subsection \<open>File system calls\<close>

definition lookup :: "world \<Rightarrow> effect list \<Rightarrow> string \<Rightarrow> fsentry option" where
  "lookup w h p = walk (root w h) (resolve_segments (cwd w) p)"

definition fs_read :: "world \<Rightarrow> string \<Rightarrow> fsentry option io" where
  "fs_read w p = (\<lambda>h. (Inr (lookup w h p), h))"

definition existsSync :: "world \<Rightarrow> string \<Rightarrow> bool io" where
  "existsSync w p = (\<lambda>h. (Inr (lookup w h p \<noteq> None), h))"

definition stat :: "world \<Rightarrow> string \<Rightarrow> Stats io" where
  "stat w p =
     (\<lambda>h. (case lookup w h p of
              None \<Rightarrow> Inl fs_error
            | Some e \<Rightarrow> (case stat_result e of None \<Rightarrow> Inl fs_error | Some s \<Rightarrow> Inr s), h))"

definition readFile :: "world \<Rightarrow> string \<Rightarrow> string io" where
  "readFile w p =
     (\<lambda>h. (case lookup w h p of
              Some (File st opn (Some b)) \<Rightarrow> Inr b
            | Some (Other st opn (Some b)) \<Rightarrow> Inr b
            | _ \<Rightarrow> Inl fs_error, h))"

definition fs_do :: "world \<Rightarrow> fs_op \<Rightarrow> unit io" where
  "fs_do w op =
     (\<lambda>h. (case fs_outcome w h op of None \<Rightarrow> Inr () | Some e \<Rightarrow> Inl e, h @ [FS op]))"

section \<open>S3Service (s3.ts)\<close>

definition BUCKET_NAME :: string where
  "BUCKET_NAME = ''9527''"

text \<open>What \<open>getObjectMetadata\<close> returns for an object that exists.\<close>

record ObjectMetadata =
  LastModified :: "Date option"
  ETag :: "string option"
  XOriginalMtime :: "Date option"

definition S3Service_isFileAccessible :: "world \<Rightarrow> string \<Rightarrow> bool io" where
  "S3Service_isFileAccessible w filePath =
     (\<lambda>h. (Inr (case lookup w h filePath of
                   Some (File st opn b) \<Rightarrow> opn
                 | Some (Other st opn b) \<Rightarrow> opn
                 | _ \<Rightarrow> False), h))"

definition S3Service_listFiles :: "world \<Rightarrow> string \<Rightarrow> S3Object list io" where
  "S3Service_listFiles w bucketName =
     io_catch
       (io_bind (\<lambda>h. (list_objects w h bucketName, h @ [S3 (ListObjectsV2Command bucketName)]))
          (\<lambda>response. case Contents response of Some cs \<Rightarrow> pure cs | None \<Rightarrow> pure []))
       (\<lambda>error. pure [])"

text \<open>
  \<^verbatim>\<open>response.Metadata?.['x-original-mtime'] ? new Date(...) : null\<close>: a missing map, a
  missing entry and the empty string all give null.
\<close>

definition S3Service_getObjectMetadata :: "world \<Rightarrow> string \<Rightarrow> ObjectMetadata option io" where
  "S3Service_getObjectMetadata w key =
     io_catch
       (io_bind (\<lambda>h. (head_object w h key, h @ [S3 (HeadObjectCommand BUCKET_NAME key)]))
          (\<lambda>response.
             pure (Some \<lparr>LastModified = resp_LastModified response,
                         ETag = resp_ETag response,
                         XOriginalMtime =
                           (case resp_Metadata response of
                              None \<Rightarrow> None
                            | Some md \<Rightarrow>
                                (case map_of md ''x-original-mtime'' of
                                   None \<Rightarrow> None
                                 | Some text \<Rightarrow>
                                     if text = [] then None else Some (Date_parse w text)))\<rparr>)))
       (\<lambda>error.
          if err_name error = Some ''NotFound'' \<or> httpStatusCode error = Some 404
          then pure None
          else throw error)"

definition S3Service_downloadFile :: "world \<Rightarrow> string \<Rightarrow> string \<Rightarrow> bool io" where
  "S3Service_downloadFile w key localFilePath =
     io_catch
       (let dir = path_dirname localFilePath in
        io_bind (existsSync w dir) (\<lambda>dirExists.
        io_bind (if \<not> dirExists then fs_do w (MkdirP dir) else pure ()) (\<lambda>_.
        io_bind (\<lambda>h. (get_object w h key, h @ [S3 (GetObjectCommand BUCKET_NAME key)]))
          (\<lambda>response.
             case Body response of
               Some body \<Rightarrow>
                 io_bind (case body of Bytes b \<Rightarrow> pure b | Broken e \<Rightarrow> throw e)
                   (\<lambda>bodyContents.
                      io_bind (fs_do w (WriteFile localFilePath bodyContents)) (\<lambda>_. pure True))
             | None \<Rightarrow> throw empty_body_error))))
       (\<lambda>error. pure False)"

definition S3Service_uploadFile :: "world \<Rightarrow> string \<Rightarrow> string \<Rightarrow> bool io" where
  "S3Service_uploadFile w localFilePath relativePath =
     io_bind (S3Service_isFileAccessible w localFilePath) (\<lambda>accessible.
       if \<not> accessible then pure False
       else
         let key = dropLeadingSlash relativePath in
         io_bind (stat w localFilePath) (\<lambda>localStat.
         let localMtime = mtime localStat in
         io_bind (S3Service_getObjectMetadata w key) (\<lambda>metadata.
           if (case metadata of
                 None \<Rightarrow> False
               | Some md \<Rightarrow>
                   (case XOriginalMtime md of
                      None \<Rightarrow> False
                    | Some remote \<Rightarrow> date_le localMtime remote))
           then pure False
           else
             io_catch
               (io_bind (readFile w localFilePath) (\<lambda>body.
                io_bind (\<lambda>h. (toISOString localMtime, h)) (\<lambda>stamp.
                  let command =
                        PutObjectCommand BUCKET_NAME key body [(''x-original-mtime'', stamp)]
                  in io_bind
                       (\<lambda>h. (case put_object w h command of None \<Rightarrow> Inr () | Some e \<Rightarrow> Inl e,
                             h @ [S3 command]))
                       (\<lambda>_. pure True))))
               (\<lambda>error. pure False))))"

definition S3Service_deleteFile :: "world \<Rightarrow> string \<Rightarrow> bool io" where
  "S3Service_deleteFile w relativePath =
     io_catch
       (let key = dropLeadingSlash relativePath in
        io_bind
          (\<lambda>h. (case delete_object w h key of None \<Rightarrow> Inr () | Some e \<Rightarrow> Inl e,
                h @ [S3 (DeleteObjectCommand BUCKET_NAME key)]))
          (\<lambda>_. pure True))
       (\<lambda>error. pure False)"

section \<open>The sync engine (syncfs.ts)\<close>

subsection \<open>Scanning and enumerating the local tree\<close>

text \<open>
  A traversal takes the directory it reads (what lies at \<open>dirPath\<close>, \<open>None\<close> when nothing
  does) together with the path, and sees the tree as it was when the traversal began.
  \<open>readdir\<close> throws for a missing path, for a path that is no directory, and for a
  directory that cannot be read.
\<close>

fun scanDirectory :: "fsentry option \<Rightarrow> string \<Rightarrow> string \<Rightarrow> FileSystemNode list" where
  "scanDirectory (Some (Dir st True es)) dirPath relativePath =
     (case collect
        (map (\<lambda>(entry_name, entry).
           if startsWith entry_name ''.'' then Inr []
           else
             let entryRelativePath = path_join [relativePath, entry_name];
                 entryPath = path_join [dirPath, entry_name];
                 entryId = toBase64 entryRelativePath
             in (case entry of
                   Dir st' r' es' \<Rightarrow>
                     (case st' of
                        None \<Rightarrow> Inl fs_error
                      | Some stats \<Rightarrow>
                          Inr [FileSystemNode entryId entry_name type_folder entryRelativePath
                                 None (Some (birthtime stats)) (Some (mtime stats))
                                 (Some (scanDirectory (Some entry) entryPath entryRelativePath))
                                 False])
                 | File st' opn b \<Rightarrow>
                     (case st' of
                        None \<Rightarrow> Inl fs_error
                      | Some stats \<Rightarrow>
                          Inr [FileSystemNode entryId entry_name type_file entryRelativePath
                                 (Some (st_size stats)) (Some (birthtime stats))
                                 (Some (mtime stats)) None True])
                 | Other st' opn b \<Rightarrow> Inr []))
           es)
      of Inl error \<Rightarrow> []
       | Inr result \<Rightarrow> concat result)"
| "scanDirectory _ dirPath relativePath = []"

fun getAllFilesInDirectory :: "fsentry option \<Rightarrow> string \<Rightarrow> string \<Rightarrow> string list" where
  "getAllFilesInDirectory (Some (Dir st True es)) dirPath baseRelativePath =
     concat
       (map (\<lambda>(entry_name, entry).
          let entryPath = path_join [dirPath, entry_name];
              entryRelativePath = backslashToSlash (path_join [baseRelativePath, entry_name])
          in (case entry of
                Dir st' r' es' \<Rightarrow> getAllFilesInDirectory (Some entry) entryPath entryRelativePath
              | _ \<Rightarrow> [entryRelativePath]))
          es)"
| "getAllFilesInDirectory _ dirPath baseRelativePath = []"

subsection \<open>Single-file push and delete\<close>

definition syncFile :: "world \<Rightarrow> string \<Rightarrow> string \<Rightarrow> unit io" where
  "syncFile w filePath baseDir =
     io_catch
       (let relativePath = backslashToSlash (path_relative (cwd w) baseDir filePath)
        in io_bind (S3Service_uploadFile w filePath relativePath) (\<lambda>_. pure ()))
       (\<lambda>error. pure ())"

definition deleteFile :: "world \<Rightarrow> string \<Rightarrow> string \<Rightarrow> unit io" where
  "deleteFile w filePath baseDir =
     io_catch
       (let relativePath = backslashToSlash (path_relative (cwd w) baseDir filePath)
        in io_bind (S3Service_deleteFile w relativePath) (\<lambda>_. pure ()))
       (\<lambda>error. pure ())"

subsection \<open>Push-all\<close>

text \<open>The inner function \<open>processDirectory\<close> of \<open>syncAllFiles\<close>.\<close>

fun processDirectory :: "world \<Rightarrow> string \<Rightarrow> fsentry option \<Rightarrow> string \<Rightarrow> unit io" where
  "processDirectory w baseDir (Some (Dir st True es)) directory =
     run_all
       (map (\<lambda>(entry_name, entry).
          if startsWith entry_name ''.'' then pure ()
          else
            let fullPath = path_join [directory, entry_name]
            in (case entry of
                  Dir st' r' es' \<Rightarrow> processDirectory w baseDir (Some entry) fullPath
                | File st' opn b \<Rightarrow> syncFile w fullPath baseDir
                | Other st' opn b \<Rightarrow> pure ()))
          es)"
| "processDirectory w baseDir _ directory = throw fs_error"


subsection \<open>Pull-all\<close>

text \<open>One iteration of the loop of \<open>pullAllFilesFromS3\<close>, for one listed object.\<close>

definition pullFile :: "world \<Rightarrow> string \<Rightarrow> S3Object \<Rightarrow> unit io" where
  "pullFile w baseDir file =
     (case Key file of
        None \<Rightarrow> pure ()
      | Some s3Key \<Rightarrow>
          if s3Key = [] then pure ()
          else
            let localPath = path_join [baseDir, s3Key] in
            io_catch
              (io_bind (existsSync w localPath) (\<lambda>localExists.
                 if \<not> localExists
                 then io_bind (S3Service_downloadFile w s3Key localPath) (\<lambda>_. pure ())
                 else
                   io_bind (stat w localPath) (\<lambda>localStat.
                   let localMtime = mtime localStat in
                   io_bind (S3Service_getObjectMetadata w s3Key) (\<lambda>metadata.
                     case metadata of
                       None \<Rightarrow> pure ()
                     | Some md \<Rightarrow>
                         (case LastModified md of
                            None \<Rightarrow> pure ()
                          | Some remoteModified \<Rightarrow>
                              if date_gt remoteModified localMtime
                              then io_bind (S3Service_downloadFile w s3Key localPath)
                                     (\<lambda>_. pure ())
                              else pure ())))))
              (\<lambda>error. pure ()))"

definition pullAllFilesFromS3 :: "world \<Rightarrow> string \<Rightarrow> unit io" where
  "pullAllFilesFromS3 w baseDir =
     io_catch
       (io_bind (S3Service_listFiles w ''9527'') (\<lambda>files.
          run_all (map (pullFile w baseDir) files)))
       (\<lambda>error. throw error)"

subsection \<open>The snapshot and the watcher\<close>

definition updateFileSystemData :: "world \<Rightarrow> unit io" where
  "updateFileSystemData w =
     io_catch
       (let userFilesDir = userFilesDir w in
        io_bind (fs_read w userFilesDir) (\<lambda>tree.
        let fileSystemData = scanDirectory tree userFilesDir ''/'' in
        io_bind (tell (Assign_fileSystemData fileSystemData)) (\<lambda>_.
          if window_open w then tell (Send_file_system_updated fileSystemData) else pure ())))
       (\<lambda>error. pure ())"


definition on_add :: "world \<Rightarrow> string \<Rightarrow> unit io list" where
  "on_add w filePath = [updateFileSystemData w, syncFile w filePath (userFilesDir w)]"

definition on_addDir :: "world \<Rightarrow> unit io list" where
  "on_addDir w = [updateFileSystemData w]"

definition on_change :: "world \<Rightarrow> string \<Rightarrow> unit io list" where
  "on_change w filePath = [updateFileSystemData w, syncFile w filePath (userFilesDir w)]"

definition on_unlink :: "world \<Rightarrow> string \<Rightarrow> unit io list" where
  "on_unlink w filePath = [updateFileSystemData w, deleteFile w filePath (userFilesDir w)]"

definition on_unlinkDir :: "world \<Rightarrow> unit io list" where
  "on_unlinkDir w = [updateFileSystemData w]"

subsection \<open>The IPC handlers\<close>

text \<open>
  The result envelope \<^verbatim>\<open>{success, error?, content?}\<close>. The error texts of the source are
  fixed Chinese messages, named here by what they say; the import and move messages embed
  the caught error.
\<close>

datatype message =
    read_failed
  | sync_failed
  | create_file_failed
  | create_folder_failed
  | delete_failed
  | source_missing
  | import_failed js_error
  | move_failed js_error

record envelope =
  success :: bool
  error :: "message option"
  content :: "string option"

definition succeeded :: envelope where
  "succeeded = \<lparr>success = True, error = None, content = None\<rparr>"

definition failed :: "message \<Rightarrow> envelope" where
  "failed m = \<lparr>success = False, error = Some m, content = None\<rparr>"

definition read_file_content :: "world \<Rightarrow> string \<Rightarrow> envelope io" where
  "read_file_content w filePath =
     io_catch
       (let fullPath = (if path_isAbsolute filePath then filePath
                        else path_join [userFilesDir w, filePath])
        in io_bind (readFile w fullPath) (\<lambda>raw.
             pure \<lparr>success = True, error = None, content = Some (decode_utf8 w raw)\<rparr>))
       (\<lambda>error. pure (failed read_failed))"

definition force_sync_from_s3 :: "world \<Rightarrow> envelope io" where
  "force_sync_from_s3 w =
     io_catch
       (io_bind (pullAllFilesFromS3 w (userFilesDir w)) (\<lambda>_. pure succeeded))
       (\<lambda>error. pure (failed sync_failed))"

definition create_file :: "world \<Rightarrow> string \<Rightarrow> string \<Rightarrow> string option \<Rightarrow> envelope io" where
  "create_file w parentPath fileName text =
     io_catch
       (let normalizedParentPath = dropLeadingSlash parentPath;
            fullParentPath = path_join [userFilesDir w, normalizedParentPath];
            fullPath = path_join [fullParentPath, fileName]
        in io_bind (existsSync w fullParentPath) (\<lambda>parentExists.
           io_bind (if \<not> parentExists then fs_do w (MkdirP fullParentPath) else pure ()) (\<lambda>_.
           io_bind (fs_do w (WriteFile fullPath (case text of None \<Rightarrow> [] | Some t \<Rightarrow> t))) (\<lambda>_.
             pure succeeded))))
       (\<lambda>error. pure (failed create_file_failed))"

definition create_folder :: "world \<Rightarrow> string \<Rightarrow> string \<Rightarrow> envelope io" where
  "create_folder w parentPath folderName =
     io_catch
       (let normalizedParentPath = dropLeadingSlash parentPath;
            fullParentPath = path_join [userFilesDir w, normalizedParentPath];
            fullPath = path_join [fullParentPath, folderName]
        in io_bind (fs_do w (MkdirP fullPath)) (\<lambda>_. pure succeeded))
       (\<lambda>error. pure (failed create_folder_failed))"

definition delete_item :: "world \<Rightarrow> string \<Rightarrow> envelope io" where
  "delete_item w itemPath =
     io_catch
       (let normalizedPath = dropLeadingSlash itemPath;
            fullPath = path_join [userFilesDir w, normalizedPath]
        in io_bind (stat w fullPath) (\<lambda>stats.
             if isDirectory stats then
               io_bind (fs_read w fullPath) (\<lambda>tree.
               let allFiles = getAllFilesInDirectory tree fullPath normalizedPath in
               io_bind
                 (run_all
                    (map (\<lambda>filePath.
                       io_catch (io_bind (S3Service_deleteFile w filePath) (\<lambda>_. pure ()))
                         (\<lambda>error. pure ()))
                       allFiles))
                 (\<lambda>_. io_bind (fs_do w (Rm fullPath)) (\<lambda>_. pure succeeded)))
             else
               io_bind (S3Service_deleteFile w normalizedPath) (\<lambda>_.
               io_bind (fs_do w (Unlink fullPath)) (\<lambda>_. pure succeeded))))
       (\<lambda>error. pure (failed delete_failed))"

definition import_file :: "world \<Rightarrow> string \<Rightarrow> string \<Rightarrow> envelope io" where
  "import_file w sourcePath targetDirectory =
     io_catch
       (io_bind (existsSync w sourcePath) (\<lambda>sourceExists.
          if \<not> sourceExists then pure (failed source_missing)
          else
            let normalizedTargetDir = dropLeadingSlash targetDirectory;
                fullTargetDir = path_join [userFilesDir w, normalizedTargetDir]
            in io_bind (existsSync w fullTargetDir) (\<lambda>targetDirExists.
               io_bind (if \<not> targetDirExists then fs_do w (MkdirP fullTargetDir) else pure ())
                 (\<lambda>_.
               let fileName = path_basename sourcePath;
                   targetPath = path_join [fullTargetDir, fileName]
               in io_bind (fs_do w (CopyFile sourcePath targetPath)) (\<lambda>_.
                  io_bind (stat w targetPath) (\<lambda>stats.
                  io_bind (if watcher w then tell (Emit ''add'' targetPath) else pure ()) (\<lambda>_.
                    pure succeeded)))))))
       (\<lambda>error. pure (failed (import_failed error)))"

definition import_file_from_buffer :: "world \<Rightarrow> string \<Rightarrow> string \<Rightarrow> string \<Rightarrow> envelope io" where
  "import_file_from_buffer w fileName buffer targetDirectory =
     io_catch
       (let normalizedTargetDir = dropLeadingSlash targetDirectory;
            fullTargetDir = path_join [userFilesDir w, normalizedTargetDir]
        in io_bind (existsSync w fullTargetDir) (\<lambda>targetDirExists.
           io_bind (if \<not> targetDirExists then fs_do w (MkdirP fullTargetDir) else pure ())
             (\<lambda>_.
           let targetPath = path_join [fullTargetDir, fileName]
           in io_bind (fs_do w (WriteFile targetPath buffer)) (\<lambda>_.
              io_bind (stat w targetPath) (\<lambda>stats.
              io_bind (if watcher w then tell (Emit ''add'' targetPath) else pure ()) (\<lambda>_.
                pure succeeded))))))
       (\<lambda>error. pure (failed (import_failed error)))"

definition move_item :: "world \<Rightarrow> string \<Rightarrow> string \<Rightarrow> envelope io" where
  "move_item w sourcePath targetDirectory =
     io_catch
       (let normalizedSourcePath = dropLeadingSlash sourcePath;
            normalizedTargetDir = dropLeadingSlash targetDirectory;
            baseDir = userFilesDir w;
            fullSourcePath = path_join [baseDir, normalizedSourcePath];
            fullTargetDir = path_join [baseDir, normalizedTargetDir]
        in io_bind (existsSync w fullSourcePath) (\<lambda>sourceExists.
             if \<not> sourceExists then pure (failed source_missing)
             else
               io_bind (existsSync w fullTargetDir) (\<lambda>targetDirExists.
               io_bind (if \<not> targetDirExists then fs_do w (MkdirP fullTargetDir) else pure ())
                 (\<lambda>_.
               let fileName = path_basename fullSourcePath;
                   targetPath = path_join [fullTargetDir, fileName]
               in io_bind (fs_do w (Rename fullSourcePath targetPath)) (\<lambda>_.
                  io_bind (stat w targetPath) (\<lambda>stats.
                  io_bind
                    (if isFile stats \<and> watcher w
                     then io_bind (tell (Emit ''unlink'' fullSourcePath)) (\<lambda>_.
                            tell (Emit ''add'' targetPath))
                     else pure ())
                    (\<lambda>_. pure succeeded)))))))
       (\<lambda>error. pure (failed (move_failed error)))"

text \<open>The channels registered with \<open>ipcMain.handle\<close> that answer with an envelope.\<close>

datatype request =
    Create_file string string "string option"
  | Create_folder string string
  | Delete_item string
  | Import_file string string
  | Import_file_from_buffer string string string
  | Move_item string string
  | Read_file_content string
  | Force_sync_from_s3

fun handle :: "world \<Rightarrow> request \<Rightarrow> envelope io" where
  "handle w (Create_file parentPath fileName text) = create_file w parentPath fileName text"
| "handle w (Create_folder parentPath folderName) = create_folder w parentPath folderName"
| "handle w (Delete_item itemPath) = delete_item w itemPath"
| "handle w (Import_file sourcePath targetDirectory) = import_file w sourcePath targetDirectory"
| "handle w (Import_file_from_buffer fileName buffer targetDirectory) =
     import_file_from_buffer w fileName buffer targetDirectory"
| "handle w (Move_item sourcePath targetDirectory) = move_item w sourcePath targetDirectory"
| "handle w (Read_file_content filePath) = read_file_content w filePath"
| "handle w Force_sync_from_s3 = force_sync_from_s3 w"

section \<open>Notions used in the statements\<close>

text \<open>The names of a snapshot node and of all nodes below it.\<close>

fun node_names :: "FileSystemNode \<Rightarrow> string list" where
  "node_names (FileSystemNode i n t p s c m ch l) =
     n # (case ch of None \<Rightarrow> [] | Some cs \<Rightarrow> concat (map node_names cs))"

text \<open>The two ways in which the store says that an object does not exist.\<close>

definition is_not_found :: "js_error \<Rightarrow> bool" where
  "is_not_found e = (err_name e = Some ''NotFound'' \<or> httpStatusCode e = Some 404)"

fun is_directory :: "fsentry \<Rightarrow> bool" where
  "is_directory (Dir st r es) = True"
| "is_directory _ = False"

text \<open>
  The files that a directory contains, over all nested subdirectories, in directory
  order. Every entry that is not itself a directory is a file, whether or not its
  directory can be listed; a file is given by the names on the way from the directory to
  it. The number of files the directory contains is the length of this list.
\<close>

fun contained_files :: "fsentry \<Rightarrow> string list list" where
  "contained_files (Dir st r es) =
     concat
       (map (\<lambda>(entry_name, entry).
          if is_directory entry then map ((#) entry_name) (contained_files entry)
          else [[entry_name]])
          es)"
| "contained_files _ = []"

text \<open>The contained files that are reached through directories that can be listed.\<close>

fun reachable_files :: "fsentry \<Rightarrow> string list list" where
  "reachable_files (Dir st r es) =
     (if r
      then concat
             (map (\<lambda>(entry_name, entry).
                if is_directory entry then map ((#) entry_name) (reachable_files entry)
                else [[entry_name]])
                es)
      else [])"
| "reachable_files _ = []"

text \<open>
  The relative key of a contained file: the key of the directory, joined with each name
  on the way to the file, with forward slashes.
\<close>

definition key_of :: "string \<Rightarrow> string list \<Rightarrow> string" where
  "key_of base names =
     foldl (\<lambda>key entry_name. backslashToSlash (path_join [key, entry_name])) base names"

text \<open>The tree without the entries whose name begins with a dot, at every depth.\<close>

fun without_hidden :: "fsentry \<Rightarrow> fsentry" where
  "without_hidden (Dir st r es) =
     Dir st r
       (map (\<lambda>(entry_name, entry). (entry_name, without_hidden entry))
          (filter (\<lambda>(entry_name, entry). \<not> startsWith entry_name ''.'') es))"
| "without_hidden entry = entry"

text \<open>Every directory of the tree can be listed.\<close>

fun all_listable :: "fsentry \<Rightarrow> bool" where
  "all_listable (Dir st r es) = (r \<and> list_all (\<lambda>(entry_name, entry). all_listable entry) es)"
| "all_listable _ = True"




text \<open>
  An origin modification time exists and is the local modification time or later (both
  being valid dates); and the same of the metadata of a remote object, which must exist.
\<close>

definition same_or_later :: "Date \<Rightarrow> Date option \<Rightarrow> bool" where
  "same_or_later localMtime origin =
     (case (localMtime, origin) of
        (TimeValue l, Some (TimeValue r)) \<Rightarrow> l \<le> r
      | _ \<Rightarrow> False)"

definition remote_same_or_newer :: "Date \<Rightarrow> ObjectMetadata option \<Rightarrow> bool" where
  "remote_same_or_newer localMtime metadata =
     (case metadata of
        None \<Rightarrow> False
      | Some md \<Rightarrow> same_or_later localMtime (XOriginalMtime md))"

text \<open>A date that holds a time value, within the range of \<open>Date\<close>.\<close>

definition valid_date :: "Date \<Rightarrow> bool" where
  "valid_date d = (case d of TimeValue t \<Rightarrow> valid_time t | Invalid_Date \<Rightarrow> False)"

text \<open>The origin modification time that a metadata answer of the store carries, if any.\<close>

definition origin_mtime :: "world \<Rightarrow> HeadObjectOutput \<Rightarrow> Date option" where
  "origin_mtime w response =
     (case resp_Metadata response of
        None \<Rightarrow> None
      | Some md \<Rightarrow>
          (case map_of md ''x-original-mtime'' of
             None \<Rightarrow> None
           | Some stamp \<Rightarrow> if stamp = [] then None else Some (Date_parse w stamp)))"

text \<open>The bytes of what lies at a path, when it is a file that can be read.\<close>

fun readable_bytes :: "fsentry option \<Rightarrow> string option" where
  "readable_bytes (Some (File st opn b)) = b"
| "readable_bytes (Some (Other st opn b)) = b"
| "readable_bytes _ = None"

text \<open>
  What \<open>put\<close> does for one local file and key, in the words of the specification, as the
  history it leaves. A file that cannot be opened for read-write is skipped, and so is
  one whose \<open>stat\<close> fails: nothing is sent. Otherwise the metadata of the key is fetched.
  If the fetch fails, or the remote object carries an origin modification time that is
  the local modification time or later, nothing more is sent. Otherwise the file's bytes
  are uploaded under the key, stamped with the local modification time in ISO-8601; if
  the bytes cannot be read or the local modification time is no valid date, nothing more
  is sent.
\<close>

definition put_spec :: "world \<Rightarrow> string \<Rightarrow> string \<Rightarrow> effect list \<Rightarrow> effect list" where
  "put_spec w localPath key h =
     (case lookup w h localPath of
        None \<Rightarrow> h
      | Some entry \<Rightarrow>
          if is_directory entry \<or> \<not> openable entry then h
          else
            (case stat_result entry of
               None \<Rightarrow> h
             | Some stats \<Rightarrow>
                 let probed = h @ [S3 (HeadObjectCommand BUCKET_NAME key)];
                     due = (case head_object w h key of
                              Inl e \<Rightarrow> is_not_found e
                            | Inr response \<Rightarrow>
                                \<not> same_or_later (mtime stats) (origin_mtime w response))
                 in if \<not> due then probed
                    else
                      (case (readable_bytes (lookup w probed localPath),
                             toISOString (mtime stats)) of
                         (Some body, Inr stamp) \<Rightarrow>
                           probed @ [S3 (PutObjectCommand BUCKET_NAME key body
                                           [(''x-original-mtime'', stamp)])]
                       | _ \<Rightarrow> probed)))"

text \<open>The key under which the engine pushes a local file: its path relative to the base.\<close>

definition key_for :: "world \<Rightarrow> string \<Rightarrow> string \<Rightarrow> string" where
  "key_for w baseDir filePath =
     dropLeadingSlash (backslashToSlash (path_relative (cwd w) baseDir filePath))"

text \<open>An envelope reports success exactly when it carries no error message.\<close>

definition well_formed :: "envelope \<Rightarrow> bool" where
  "well_formed env = (success env \<longleftrightarrow> error env = None)"

text \<open>A computation that never throws, and one that only adds effects of a given kind.\<close>

definition never_throws :: "'a io \<Rightarrow> bool" where
  "never_throws m = (\<forall>h. \<not> isl (fst (m h)))"


section \<open>Example worlds\<close>

definition not_found_error :: js_error where
  "not_found_error = \<lparr>err_name = Some ''NotFound'', httpStatusCode = Some 404\<rparr>"

definition timeout_error :: js_error where
  "timeout_error = \<lparr>err_name = Some ''TimeoutError'', httpStatusCode = None\<rparr>"

definition dir_stats :: Stats where
  "dir_stats = \<lparr>isDirectory = True, isFile = False, st_size = 0,
                 birthtime = TimeValue 0, mtime = TimeValue 0\<rparr>"

definition file_stats :: "nat \<Rightarrow> int \<Rightarrow> Stats" where
  "file_stats n t = \<lparr>isDirectory = False, isFile = True, st_size = n,
                      birthtime = TimeValue t, mtime = TimeValue t\<rparr>"

text \<open>
  An empty file system with the user files directory \<open>/data\<close> not yet created, and an
  empty, reachable bucket.
\<close>

definition world0 :: world where
  "world0 =
     \<lparr>userFilesDir = ''/data'', cwd = ''/'', watcher = True, window_open = True,
      Date_parse = (\<lambda>text. Invalid_Date),
      decode_utf8 = (\<lambda>raw. raw),
      root = (\<lambda>h. Dir (Some dir_stats) True []),
      fs_outcome = (\<lambda>h op. None),
      list_objects = (\<lambda>h bucket. Inr \<lparr>Contents = None\<rparr>),
      head_object = (\<lambda>h key. Inl not_found_error),
      get_object = (\<lambda>h key. Inl not_found_error),
      put_object = (\<lambda>h command. None),
      delete_object = (\<lambda>h key. None)\<rparr>"

text \<open>
  \<open>/data\<close> holds \<open>docs/readme.txt\<close>, the hidden file \<open>docs/.draft\<close>, the hidden
  directory \<open>.git\<close> with a file in it, and \<open>a.txt\<close>.
\<close>

definition tree_hidden :: fsentry where
  "tree_hidden =
     Dir (Some dir_stats) True
       [(''docs'', Dir (Some dir_stats) True
           [(''readme.txt'', File (Some (file_stats 5 50)) True (Some ''hello'')),
            (''.draft'', File (Some (file_stats 1 60)) True (Some ''x''))]),
        (''.git'', Dir (Some dir_stats) True
           [(''config'', File (Some (file_stats 1 70)) True (Some ''c''))]),
        (''a.txt'', File (Some (file_stats 2 80)) True (Some ''ab''))]"

text \<open>\<open>/data/d\<close> holds the directory \<open>s\<close>, which cannot be listed, with one file in it.\<close>

definition tree_unlistable :: fsentry where
  "tree_unlistable =
     Dir (Some dir_stats) True
       [(''s'', Dir (Some dir_stats) False
           [(''f.txt'', File (Some (file_stats 1 10)) True (Some ''f''))])]"

definition world_unlistable :: world where
  "world_unlistable =
     world0\<lparr>root := (\<lambda>h. Dir (Some dir_stats) True
                        [(''data'', Dir (Some dir_stats) True [(''d'', tree_unlistable)])])\<rparr>"

definition world_hidden :: world where
  "world_hidden = world0\<lparr>root := (\<lambda>h. Dir (Some dir_stats) True [(''data'', tree_hidden)])\<rparr>"

text \<open>
  \<open>/data/a.txt\<close> was modified locally at time 50. The store holds \<open>a.txt\<close>, written to
  the store at time 100, whose origin modification time is 10: the local file is the
  later writer.
\<close>

definition world_stale_origin :: world where
  "world_stale_origin = world0
     \<lparr>Date_parse :=
        (\<lambda>text. if text = ''1970-01-01T00:00:00.010Z'' then TimeValue 10 else Invalid_Date),
      root := (\<lambda>h. Dir (Some dir_stats) True
                 [(''data'', Dir (Some dir_stats) True
                    [(''a.txt'', File (Some (file_stats 5 50)) True (Some ''local''))])]),
      list_objects := (\<lambda>h bucket. Inr \<lparr>Contents = Some [\<lparr>Key = Some ''a.txt''\<rparr>]\<rparr>),
      head_object :=
        (\<lambda>h key. Inr \<lparr>resp_LastModified = Some (TimeValue 100), resp_ETag = None,
                      resp_Metadata =
                        Some [(''x-original-mtime'', ''1970-01-01T00:00:00.010Z'')]\<rparr>),
      get_object := (\<lambda>h key. Inr \<lparr>Body = Some (Bytes ''remote'')\<rparr>)\<rparr>"

text \<open>
  The same local file; the remote object was written to the store at time 40 and its
  origin modification time is 90: the remote object is the later writer.
\<close>

definition world_fresh_origin :: world where
  "world_fresh_origin = world_stale_origin
     \<lparr>Date_parse :=
        (\<lambda>text. if text = ''1970-01-01T00:00:00.090Z'' then TimeValue 90 else Invalid_Date),
      head_object :=
        (\<lambda>h key. Inr \<lparr>resp_LastModified = Some (TimeValue 40), resp_ETag = None,
                      resp_Metadata =
                        Some [(''x-original-mtime'', ''1970-01-01T00:00:00.090Z'')]\<rparr>)\<rparr>"

text \<open>The same local file; the remote object was written by a foreign tool, with no metadata.\<close>

definition world_foreign_object :: world where
  "world_foreign_object = world_stale_origin
     \<lparr>head_object :=
        (\<lambda>h key. Inr \<lparr>resp_LastModified = Some (TimeValue 100), resp_ETag = None,
                      resp_Metadata = None\<rparr>)\<rparr>"

text \<open>\<open>/data/f.txt\<close> is held open by another writer; the store has no such object.\<close>

definition world_locked :: world where
  "world_locked = world0
     \<lparr>root := (\<lambda>h. Dir (Some dir_stats) True
                 [(''data'', Dir (Some dir_stats) True
                    [(''f.txt'', File (Some (file_stats 1 50)) False (Some ''x''))])])\<rparr>"


text \<open>
  \<open>/data/f.txt\<close> can be opened and read, and its time stamp lies outside the range of
  \<open>Date\<close>; the store has no such object.
\<close>

definition world_invalid_mtime :: world where
  "world_invalid_mtime = world0
     \<lparr>root := (\<lambda>h. Dir (Some dir_stats) True
                 [(''data'', Dir (Some dir_stats) True
                    [(''f.txt'',
                      File (Some \<lparr>isDirectory = False, isFile = True, st_size = 1,
                                  birthtime = TimeValue 0, mtime = Invalid_Date\<rparr>)
                        True (Some ''x''))])])\<rparr>"

text \<open>
  \<open>/data/docs\<close> holds \<open>readme.txt\<close> and the directory \<open>sub\<close>, which holds \<open>deep.txt\<close>
  and the hidden file \<open>.secret\<close>.
\<close>

definition tree_nested :: fsentry where
  "tree_nested =
     Dir (Some dir_stats) True
       [(''readme.txt'', File (Some (file_stats 5 50)) True (Some ''hello'')),
        (''sub'', Dir (Some dir_stats) True
           [(''deep.txt'', File (Some (file_stats 1 60)) True (Some ''d'')),
            (''.secret'', File (Some (file_stats 1 70)) True (Some ''s''))])]"

definition world_nested :: world where
  "world_nested =
     world0\<lparr>root := (\<lambda>h. Dir (Some dir_stats) True
                        [(''data'', Dir (Some dir_stats) True [(''docs'', tree_nested)])])\<rparr>"

text \<open>As \<open>world_unlistable\<close>, and every change to the local tree is refused.\<close>

definition world_unlistable_refused :: world where
  "world_unlistable_refused = world_unlistable\<lparr>fs_outcome := (\<lambda>h op. Some fs_error)\<rparr>"

text \<open>
  \<open>/src/.env\<close> exists and \<open>/data\<close> is empty; once \<open>/src/.env\<close> has been copied to
  \<open>/data/.env\<close>, the copy is there.
\<close>

definition world_import :: world where
  "world_import = world0
     \<lparr>root :=
        (\<lambda>h. Dir (Some dir_stats) True
               [(''src'', Dir (Some dir_stats) True
                   [(''.env'', File (Some (file_stats 1 10)) True (Some ''e''))]),
                (''data'', Dir (Some dir_stats) True
                   (if FS (CopyFile ''/src/.env'' ''/data/.env'') \<in> set h
                    then [(''.env'', File (Some (file_stats 1 20)) True (Some ''e''))]
                    else []))])\<rparr>"

section \<open>Proofs\<close>

subsection \<open>Computations\<close>

text \<open>Running a computation from a given history.\<close>

lemma pure_apply: "pure a h = (Inr a, h)"
  by (simp add: pure_def)

lemma throw_apply: "throw e h = (Inl e, h)"
  by (simp add: throw_def)

lemma tell_apply: "tell x h = (Inr (), h @ [x])"
  by (simp add: tell_def)

lemma io_bind_apply:
  "io_bind m f h = (case m h of (Inl e, h') \<Rightarrow> (Inl e, h') | (Inr a, h') \<Rightarrow> f a h')"
  by (simp add: io_bind_def)

lemma io_catch_apply:
  "io_catch m c h = (case m h of (Inl e, h') \<Rightarrow> c e h' | (Inr a, h') \<Rightarrow> (Inr a, h'))"
  by (simp add: io_catch_def)

lemmas io_apply = pure_apply throw_apply tell_apply io_bind_apply io_catch_apply

lemma io_bind_pure: "io_bind (pure a) f = f a"
  by (simp add: io_bind_def pure_def)

lemma never_throws_pure: "never_throws (pure a)"
  by (simp add: never_throws_def pure_def)

lemma never_throws_tell: "never_throws (tell x)"
  by (simp add: never_throws_def tell_def)

lemma never_throws_bind:
  assumes "never_throws m" and "\<And>a. never_throws (f a)"
  shows "never_throws (io_bind m f)"
  unfolding never_throws_def io_bind_def
proof
  fix h
  obtain r h' where mh: "m h = (r, h')" by (cases "m h")
  with assms(1) obtain a where "r = Inr a"
    by (cases r) (auto simp: never_throws_def dest: spec[where x = h])
  with mh assms(2)[of a] show "\<not> isl (fst (case m h of (Inl e, h') \<Rightarrow> (Inl e, h') | (Inr a, h') \<Rightarrow> f a h'))"
    by (simp add: never_throws_def)
qed

lemma never_throws_catch:
  assumes "\<And>e. never_throws (c e)"
  shows "never_throws (io_catch m c)"
  unfolding never_throws_def io_catch_def
proof
  fix h
  obtain r h' where mh: "m h = (r, h')" by (cases "m h")
  show "\<not> isl (fst (case m h of (Inl e, h') \<Rightarrow> c e h' | (Inr a, h') \<Rightarrow> (Inr a, h')))"
  proof (cases r)
    case (Inl e)
    with mh assms[of e] show ?thesis by (simp add: never_throws_def)
  next
    case (Inr a)
    with mh show ?thesis by simp
  qed
qed

lemma never_throws_run_all:
  assumes "\<And>m. m \<in> set ms \<Longrightarrow> never_throws m"
  shows "never_throws (run_all ms)"
  using assms
proof (induction ms)
  case Nil
  then show ?case by (simp add: never_throws_pure)
next
  case (Cons m ms)
  then show ?case by (simp add: never_throws_bind)
qed

lemma never_throws_result: "never_throws m \<Longrightarrow> \<exists>a. fst (m h) = Inr a"
  by (cases "fst (m h)") (auto simp: never_throws_def dest: spec[where x = h])

lemma io_catch_never_throws: "never_throws m \<Longrightarrow> io_catch m c = m"
proof
  fix h
  assume "never_throws m"
  then obtain a where "fst (m h) = Inr a" using never_throws_result by blast
  then show "io_catch m c h = m h"
    by (cases "m h") (simp add: io_catch_def)
qed










subsection \<open>The metadata probe\<close>

lemma S3Service_getObjectMetadata_cases:
  "S3Service_getObjectMetadata w key h =
     ((case head_object w h key of
         Inl e \<Rightarrow> if is_not_found e then Inr None else Inl e
       | Inr response \<Rightarrow>
           Inr (Some \<lparr>LastModified = resp_LastModified response,
                      ETag = resp_ETag response,
                      XOriginalMtime =
                        (case resp_Metadata response of
                           None \<Rightarrow> None
                         | Some md \<Rightarrow>
                             (case map_of md ''x-original-mtime'' of
                                None \<Rightarrow> None
                              | Some text \<Rightarrow>
                                  if text = [] then None else Some (Date_parse w text)))\<rparr>)),
      h @ [S3 (HeadObjectCommand BUCKET_NAME key)])"
  by (simp add: S3Service_getObjectMetadata_def io_catch_def io_bind_def pure_def throw_def
      is_not_found_def split: sum.splits)

text \<open>
  C7. \<open>getObjectMetadata\<close> returns null exactly when the store answers that the object
  does not exist (error name \<open>NotFound\<close> or HTTP status 404); every other failure of the
  request is thrown again unchanged, and an object that exists gives a metadata record.
  So null and a thrown error never stand for the same answer of the store.
\<close>

theorem getObjectMetadata_null_iff_not_found:
  "(fst (S3Service_getObjectMetadata w key h) = Inr None
      \<longleftrightarrow> (\<exists>e. head_object w h key = Inl e \<and> is_not_found e))
   \<and> (\<forall>e. head_object w h key = Inl e \<and> \<not> is_not_found e
          \<longrightarrow> fst (S3Service_getObjectMetadata w key h) = Inl e)
   \<and> (\<forall>response. head_object w h key = Inr response
          \<longrightarrow> (\<exists>md. fst (S3Service_getObjectMetadata w key h) = Inr (Some md)))"
  by (auto simp: S3Service_getObjectMetadata_cases split: sum.splits)

theorem getObjectMetadata_null_iff_not_found_witness:
  "fst (S3Service_getObjectMetadata world0 ''gone.txt'' []) = Inr None
   \<and> fst (S3Service_getObjectMetadata (world0\<lparr>head_object := (\<lambda>h key. Inl timeout_error)\<rparr>)
          ''gone.txt'' []) = Inl timeout_error"
  using getObjectMetadata_null_iff_not_found [of world0 "''gone.txt''" "[]"]
    getObjectMetadata_null_iff_not_found
      [of "world0\<lparr>head_object := (\<lambda>h key. Inl timeout_error)\<rparr>" "''gone.txt''" "[]"]
  by (simp add: world0_def is_not_found_def not_found_error_def timeout_error_def)

subsection \<open>The pull pass never throws\<close>

lemma never_throws_listFiles: "never_throws (S3Service_listFiles w bucket)"
  unfolding S3Service_listFiles_def by (rule never_throws_catch) (rule never_throws_pure)

lemma never_throws_downloadFile: "never_throws (S3Service_downloadFile w key localFilePath)"
  unfolding S3Service_downloadFile_def by (rule never_throws_catch) (rule never_throws_pure)

lemma never_throws_deleteFile: "never_throws (S3Service_deleteFile w relativePath)"
  unfolding S3Service_deleteFile_def by (rule never_throws_catch) (rule never_throws_pure)

lemma never_throws_pullFile: "never_throws (pullFile w baseDir file)"
  unfolding pullFile_def
  by (auto simp: Let_def never_throws_pure split: option.splits
      intro!: never_throws_catch)

lemma never_throws_pullAllFilesFromS3: "never_throws (pullAllFilesFromS3 w baseDir)"
proof -
  have "never_throws (io_bind (S3Service_listFiles w ''9527'')
          (\<lambda>files. run_all (map (pullFile w baseDir) files)))"
    by (intro never_throws_bind never_throws_listFiles never_throws_run_all)
      (auto simp: never_throws_pullFile)
  then show ?thesis
    by (simp add: pullAllFilesFromS3_def io_catch_never_throws)
qed

text \<open>
  C6. Whatever the store answers, and whatever the local file system does, the
  \<open>force-sync-from-s3\<close> handler answers \<^verbatim>\<open>{success: true}\<close>: a failed listing is an empty
  listing, a failure for one key ends that key only, so the failure envelope is never
  returned.
\<close>

theorem force_sync_always_succeeds:
  "fst (force_sync_from_s3 w h) = Inr succeeded"
proof -
  obtain a where "fst (pullAllFilesFromS3 w (userFilesDir w) h) = Inr a"
    using never_throws_result [OF never_throws_pullAllFilesFromS3] by blast
  then obtain h' where "pullAllFilesFromS3 w (userFilesDir w) h = (Inr a, h')"
    by (cases "pullAllFilesFromS3 w (userFilesDir w) h") simp
  then show ?thesis
    by (simp add: force_sync_from_s3_def io_catch_def io_bind_def pure_def)
qed

theorem force_sync_always_succeeds_witness:
  "fst (force_sync_from_s3 (world0\<lparr>list_objects := (\<lambda>h bucket. Inl timeout_error)\<rparr>) [])
     = Inr \<lparr>success = True, error = None, content = None\<rparr>"
  using force_sync_always_succeeds
    [of "world0\<lparr>list_objects := (\<lambda>h bucket. Inl timeout_error)\<rparr>" "[]"]
  by (simp add: succeeded_def)

subsection \<open>The scanner\<close>

lemma collect_Inr: "collect rs = Inr xs \<Longrightarrow> rs = map Inr xs"
proof (induction rs arbitrary: xs)
  case Nil
  then show ?case by simp
next
  case (Cons r rs)
  then show ?case by (cases r) (auto split: sum.splits)
qed

lemma collect_map_elem:
  assumes "Inr result = collect (map f es)" and "xs \<in> set result"
  shows "\<exists>p \<in> set es. f p = Inr xs"
proof -
  from assms(1) have "map f es = map Inr result" by (simp add: collect_Inr)
  with assms(2) show ?thesis
    by (metis (no_types, lifting) image_iff list.set_map)
qed

text \<open>
  C9. No node of a snapshot has a name that begins with a dot, at any depth: the scan
  skips such an entry before it builds a node, in every directory it descends into.
\<close>

theorem scanDirectory_skips_dotfiles:
  "node \<in> set (scanDirectory d dirPath relativePath) \<Longrightarrow> n \<in> set (node_names node)
     \<Longrightarrow> \<not> startsWith n ''.''"
proof (induction d dirPath relativePath arbitrary: node n rule: scanDirectory.induct)
  case (1 st es dirPath relativePath)
  have IH: "\<not> startsWith n ''.''"
    if "(a, Dir (Some stats) r' es') \<in> set es" "\<not> startsWith a ''.''"
      "node \<in> set (scanDirectory (Some (Dir (Some stats) r' es')) (path_join [dirPath, a])
          (path_join [relativePath, a]))"
      "n \<in> set (node_names node)"
    for a stats r' es' node n
    using that by (rule "1.IH"[OF _ refl _ refl refl refl refl refl])
  from "1.prems" show ?case
    apply (clarsimp split: sum.splits)
    apply (drule (1) collect_map_elem)
    apply (clarsimp simp: Let_def split: if_splits fsentry.splits option.splits)
    apply (auto dest: IH)
    done
qed simp_all

lemma scan_tree_hidden:
  "map name (scanDirectory (Some tree_hidden) ''/data'' ''/'') = [''docs'', ''a.txt'']"
  by (simp add: tree_hidden_def startsWith_def Let_def dir_stats_def file_stats_def)

theorem scanDirectory_skips_dotfiles_witness:
  "hd (scanDirectory (Some tree_hidden) ''/data'' ''/'')
       \<in> set (scanDirectory (Some tree_hidden) ''/data'' ''/'')
   \<and> ''readme.txt'' \<in> set (node_names (hd (scanDirectory (Some tree_hidden) ''/data'' ''/'')))
   \<and> \<not> startsWith ''readme.txt'' ''.''"
proof -
  have a: "hd (scanDirectory (Some tree_hidden) ''/data'' ''/'')
       \<in> set (scanDirectory (Some tree_hidden) ''/data'' ''/'')"
    by (simp add: tree_hidden_def startsWith_def Let_def dir_stats_def file_stats_def)
  have b: "''readme.txt'' \<in> set (node_names (hd (scanDirectory (Some tree_hidden) ''/data'' ''/'')))"
    by (simp add: tree_hidden_def startsWith_def Let_def dir_stats_def file_stats_def)
  from a b scanDirectory_skips_dotfiles [OF a b] show ?thesis by simp
qed

subsection \<open>The handlers\<close>

lemma returns_pure: "P a \<Longrightarrow> \<forall>h x. fst (pure a h) = Inr x \<longrightarrow> P x"
  by (simp add: pure_def)

lemma returns_bind:
  assumes "\<And>a. \<forall>h x. fst (f a h) = Inr x \<longrightarrow> P x"
  shows "\<forall>h x. fst (io_bind m f h) = Inr x \<longrightarrow> P x"
  using assms by (auto simp: io_bind_def split: prod.splits sum.splits)

lemma returns_catch:
  assumes "\<forall>h x. fst (m h) = Inr x \<longrightarrow> P x" and "\<And>e. \<forall>h x. fst (c e h) = Inr x \<longrightarrow> P x"
  shows "\<forall>h x. fst (io_catch m c h) = Inr x \<longrightarrow> P x"
proof (intro allI impI)
  fix h x
  assume r: "fst (io_catch m c h) = Inr x"
  obtain r' h' where mh: "m h = (r', h')" by (cases "m h")
  show "P x"
  proof (cases r')
    case (Inl e)
    with mh r assms(2)[of e] show ?thesis by (simp add: io_catch_def)
  next
    case (Inr a)
    with mh r assms(1) show ?thesis by (auto simp: io_catch_def dest: spec[where x = h])
  qed
qed

lemma well_formed_simps [simp]:
  "well_formed succeeded" "well_formed (failed m)"
  "well_formed \<lparr>success = True, error = None, content = c\<rparr>"
  by (simp_all add: well_formed_def succeeded_def failed_def)

lemma handle_never_throws: "never_throws (handle w req)"
  by (cases req)
    (simp_all add: create_file_def create_folder_def delete_item_def import_file_def
      import_file_from_buffer_def move_item_def read_file_content_def force_sync_from_s3_def
      never_throws_catch never_throws_pure)

lemma handle_well_formed: "\<forall>h x. fst (handle w req h) = Inr x \<longrightarrow> well_formed x"
proof (cases req)
  case (Create_file parentPath fileName body)
  then show ?thesis
    unfolding handle.simps Create_file create_file_def Let_def
    by (intro returns_catch returns_bind returns_pure) simp_all
next
  case (Create_folder parentPath folderName)
  then show ?thesis
    unfolding handle.simps Create_folder create_folder_def Let_def
    by (intro returns_catch returns_bind returns_pure) simp_all
next
  case (Delete_item itemPath)
  have "\<forall>h x. fst ((if c then a else b) h) = Inr x \<longrightarrow> P x"
    if "\<forall>h x. fst (a h) = Inr x \<longrightarrow> P x" "\<forall>h x. fst (b h) = Inr x \<longrightarrow> P x"
    for c P and a b :: "envelope io"
    using that by simp
  note returns_if = this
  show ?thesis
    unfolding handle.simps Delete_item delete_item_def Let_def
    by (intro returns_catch returns_bind returns_pure returns_if) simp_all
next
  case (Import_file sourcePath targetDirectory)
  have "\<forall>h x. fst ((if c then a else b) h) = Inr x \<longrightarrow> P x"
    if "\<forall>h x. fst (a h) = Inr x \<longrightarrow> P x" "\<forall>h x. fst (b h) = Inr x \<longrightarrow> P x"
    for c P and a b :: "envelope io"
    using that by simp
  note returns_if = this
  show ?thesis
    unfolding handle.simps Import_file import_file_def Let_def
    by (intro returns_catch returns_bind returns_pure returns_if) simp_all
next
  case (Import_file_from_buffer fileName buffer targetDirectory)
  then show ?thesis
    unfolding handle.simps Import_file_from_buffer import_file_from_buffer_def Let_def
    by (intro returns_catch returns_bind returns_pure) simp_all
next
  case (Move_item sourcePath targetDirectory)
  have "\<forall>h x. fst ((if c then a else b) h) = Inr x \<longrightarrow> P x"
    if "\<forall>h x. fst (a h) = Inr x \<longrightarrow> P x" "\<forall>h x. fst (b h) = Inr x \<longrightarrow> P x"
    for c P and a b :: "envelope io"
    using that by simp
  note returns_if = this
  show ?thesis
    unfolding handle.simps Move_item move_item_def Let_def
    by (intro returns_catch returns_bind returns_pure returns_if) simp_all
next
  case (Read_file_content filePath)
  then show ?thesis
    unfolding handle.simps Read_file_content read_file_content_def Let_def
    by (intro returns_catch returns_bind returns_pure) simp_all
next
  case Force_sync_from_s3
  then show ?thesis
    unfolding handle.simps Force_sync_from_s3 force_sync_from_s3_def
    by (intro returns_catch returns_bind returns_pure) simp_all
qed

text \<open>
  C8. Every handler of the public surface, on every input and in every state of the file
  system and of the store, resolves with an envelope: no exception leaves a handler. The
  envelope says \<open>success\<close> exactly when it carries no error message.
\<close>

theorem handlers_return_envelope:
  "\<exists>env. fst (handle w req h) = Inr env \<and> (success env \<longleftrightarrow> error env = None)"
proof -
  obtain env where "fst (handle w req h) = Inr env"
    using never_throws_result [OF handle_never_throws] by blast
  with handle_well_formed [of w req] show ?thesis
    by (auto simp: well_formed_def)
qed

theorem handlers_return_envelope_witness:
  "fst (handle world0 (Delete_item ''/missing.txt'') [])
     = Inr \<lparr>success = False, error = Some delete_failed, content = None\<rparr>"
  using handlers_return_envelope [of world0 "Delete_item ''/missing.txt''" "[]"]
  by (simp add: delete_item_def stat_def lookup_def world0_def io_catch_def io_bind_def pure_def
      failed_def path_join_def path_normalize_def path_isAbsolute_def resolve_segments_def
      startsWith_def dropLeadingSlash_def Let_def)

subsection \<open>Deleting a directory\<close>

lemma S3Service_deleteFile_run:
  "S3Service_deleteFile w k h =
     (Inr (delete_object w h (dropLeadingSlash k) = None),
      h @ [S3 (DeleteObjectCommand BUCKET_NAME (dropLeadingSlash k))])"
  by (simp add: S3Service_deleteFile_def io_catch_def io_bind_def pure_def Let_def
      split: option.splits)

lemma delete_loop_run:
  "run_all
     (map (\<lambda>filePath.
        io_catch (io_bind (S3Service_deleteFile w filePath) (\<lambda>_. pure ())) (\<lambda>error. pure ()))
        ks) h
   = (Inr (), h @ map (\<lambda>k. S3 (DeleteObjectCommand BUCKET_NAME (dropLeadingSlash k))) ks)"
proof (induction ks arbitrary: h)
  case Nil
  then show ?case by (simp add: pure_def)
next
  case (Cons k ks)
  then show ?case
    by (simp add: S3Service_deleteFile_run io_catch_def io_bind_def pure_def)
qed

lemma key_of_Cons:
  "key_of base (entry_name # names) =
     key_of (backslashToSlash (path_join [base, entry_name])) names"
  by (simp add: key_of_def)

lemma getAllFilesInDirectory_keys:
  "getAllFilesInDirectory (Some d) dirPath base = map (key_of base) (reachable_files d)"
proof (induction d arbitrary: dirPath base)
  case (Dir st r es)
  show ?case
  proof (cases r)
    case False
    then show ?thesis by simp
  next
    case True
    have "(case entry of
            Dir st' r' es' \<Rightarrow>
              getAllFilesInDirectory (Some entry) (path_join [dirPath, entry_name])
                (backslashToSlash (path_join [base, entry_name]))
          | _ \<Rightarrow> [backslashToSlash (path_join [base, entry_name])])
        = map (key_of base)
            (if is_directory entry then map ((#) entry_name) (reachable_files entry)
             else [[entry_name]])"
      if "(entry_name, entry) \<in> set es" for entry_name entry
    proof (cases entry)
      case inner: (Dir st' r' es')
      with that Dir.IH[of "(entry_name, entry)" entry] show ?thesis
        by (simp add: key_of_Cons comp_def)
    qed (simp_all add: key_of_def)
    then show ?thesis
      by (simp add: True map_concat comp_def Let_def case_prod_unfold cong: map_cong)
  qed
qed simp_all

lemma reachable_files_listable: "all_listable d \<Longrightarrow> reachable_files d = contained_files d"
proof (induction d)
  case (Dir st r es)
  from Dir.prems have r: "r" by simp
  have "(if is_directory entry then map ((#) entry_name) (reachable_files entry)
         else [[entry_name]])
      = (if is_directory entry then map ((#) entry_name) (contained_files entry)
         else [[entry_name]])"
    if "(entry_name, entry) \<in> set es" for entry_name entry
  proof -
    from that Dir.prems have "all_listable entry" by (auto simp: list_all_iff)
    with that Dir.IH[of "(entry_name, entry)" entry] show ?thesis by simp
  qed
  then show ?case
    by (simp add: r case_prod_unfold cong: map_cong)
qed simp_all

lemma delete_item_directory_run:
  assumes "lookup w h (path_join [userFilesDir w, dropLeadingSlash itemPath]) = Some d"
    and "stat_result d = Some stats" and "isDirectory stats"
  shows "delete_item w itemPath h =
     (case fs_outcome w
             (h @ map (\<lambda>names. S3 (DeleteObjectCommand BUCKET_NAME
                                     (dropLeadingSlash (key_of (dropLeadingSlash itemPath) names))))
                    (reachable_files d))
             (Rm (path_join [userFilesDir w, dropLeadingSlash itemPath])) of
        None \<Rightarrow> Inr succeeded
      | Some e \<Rightarrow> Inr (failed delete_failed),
      h @ map (\<lambda>names. S3 (DeleteObjectCommand BUCKET_NAME
                              (dropLeadingSlash (key_of (dropLeadingSlash itemPath) names))))
            (reachable_files d)
        @ [FS (Rm (path_join [userFilesDir w, dropLeadingSlash itemPath]))])"
  using assms
  by (simp add: delete_item_def stat_def fs_read_def fs_do_def delete_loop_run io_apply Let_def
      getAllFilesInDirectory_keys comp_def split: option.splits)

lemmas path_eval =
  path_join_def path_normalize_def path_isAbsolute_def resolve_segments_def startsWith_def
  dropLeadingSlash_def backslashToSlash_def path_dirname_def path_relative_def

text \<open>
  C4 as stated fails where a nested directory cannot be listed. \<open>/data/d\<close> contains one
  file, inside the directory \<open>s\<close> that cannot be listed: the handler sends no remote
  delete, and issues the removal of the local subtree, both when the removal is then
  refused and when it succeeds.
\<close>

theorem delete_item_unlistable_counterexample:
  "contained_files tree_unlistable = [[''s'', ''f.txt'']]
   \<and> delete_item world_unlistable_refused ''/d'' [] =
       (Inr (failed delete_failed), [FS (Rm ''/data/d'')])
   \<and> delete_item world_unlistable ''/d'' [] = (Inr succeeded, [FS (Rm ''/data/d'')])"
  by (simp add: delete_item_def stat_def fs_read_def fs_do_def lookup_def io_apply
      world_unlistable_refused_def world_unlistable_def world0_def tree_unlistable_def
      dir_stats_def path_eval Let_def)

text \<open>
  C4, as the code has it. For every directory passed to \<open>delete-item\<close>, the handler
  issues one remote delete for each file that the directory contains and that is reached
  through directories that can be listed, with that file's relative key (the key of the
  directory joined with the names on the way to the file), in directory order; only
  after all of them it issues the one removal of the local subtree, and nothing else. So
  no local removal precedes a remote delete. When every nested directory can be listed,
  these are all the files the directory contains: for N contained files, exactly N remote
  deletes, one per file. A subdirectory that cannot be listed adds no file to them.
\<close>

theorem delete_item_directory_order:
  assumes "lookup w h (path_join [userFilesDir w, dropLeadingSlash itemPath]) = Some (Dir st r es)"
    and "st = Some stats" and "isDirectory stats"
  shows "snd (delete_item w itemPath h) =
           h @ map (\<lambda>names. S3 (DeleteObjectCommand BUCKET_NAME
                                   (dropLeadingSlash (key_of (dropLeadingSlash itemPath) names))))
                 (reachable_files (Dir st r es))
             @ [FS (Rm (path_join [userFilesDir w, dropLeadingSlash itemPath]))]
         \<and> (all_listable (Dir st r es) \<longrightarrow>
              reachable_files (Dir st r es) = contained_files (Dir st r es))
         \<and> reachable_files (Dir st1 True (es1 @ (entry_name, Dir st2 False es2) # es3))
             = reachable_files (Dir st1 True es1) @ reachable_files (Dir st1 True es3)"
  using delete_item_directory_run [OF assms(1) _ assms(3)] assms(2)
    reachable_files_listable [of "Dir st r es"]
  by simp

lemma lookup_nested:
  "lookup world_nested h (path_join [userFilesDir world_nested, dropLeadingSlash ''/docs''])
     = Some tree_nested"
  by (simp add: lookup_def world_nested_def world0_def path_eval Let_def)

theorem delete_item_directory_order_witness:
  "all_listable tree_nested
   \<and> contained_files tree_nested = [[''readme.txt''], [''sub'', ''deep.txt''], [''sub'', ''.secret'']]
   \<and> snd (delete_item world_nested ''/docs'' []) =
       [S3 (DeleteObjectCommand ''9527'' ''docs/readme.txt''),
        S3 (DeleteObjectCommand ''9527'' ''docs/sub/deep.txt''),
        S3 (DeleteObjectCommand ''9527'' ''docs/sub/.secret''),
        FS (Rm ''/data/docs'')]"
proof -
  have d: "isDirectory dir_stats" by (simp add: dir_stats_def)
  have l: "all_listable tree_nested" by (simp add: tree_nested_def)
  have c: "contained_files tree_nested =
             [[''readme.txt''], [''sub'', ''deep.txt''], [''sub'', ''.secret'']]"
    by (simp add: tree_nested_def)
  from delete_item_directory_order
         [OF lookup_nested [unfolded tree_nested_def] refl d, of "[]", folded tree_nested_def] l
  have "snd (delete_item world_nested ''/docs'' []) =
           [] @ map (\<lambda>names. S3 (DeleteObjectCommand BUCKET_NAME
                                   (dropLeadingSlash (key_of (dropLeadingSlash ''/docs'') names))))
                 (contained_files tree_nested)
             @ [FS (Rm (path_join [userFilesDir world_nested, dropLeadingSlash ''/docs'']))]"
    by simp
  with l c show ?thesis
    by (simp add: key_of_def world_nested_def world0_def path_eval BUCKET_NAME_def Let_def)
qed

subsection \<open>Hidden files\<close>

lemma collect_filter:
  assumes "\<And>x. x \<in> set xs \<Longrightarrow> \<not> keep x \<Longrightarrow> F x = Inr []"
    and "\<And>x. x \<in> set xs \<Longrightarrow> keep x \<Longrightarrow> F x = G (g x)"
  shows "(case collect (map F xs) of Inl e \<Rightarrow> [] | Inr result \<Rightarrow> concat result)
       = (case collect (map G (map g (filter keep xs))) of
            Inl e \<Rightarrow> [] | Inr result \<Rightarrow> concat result)"
proof -
  have "(case collect (map F xs) of Inl e \<Rightarrow> Inl e | Inr result \<Rightarrow> Inr (concat result))
      = (case collect (map G (map g (filter keep xs))) of
           Inl e \<Rightarrow> Inl e | Inr result \<Rightarrow> Inr (concat result))"
    using assms
  proof (induction xs)
    case Nil
    then show ?case by simp
  next
    case (Cons x xs)
    then have IH: "(case collect (map F xs) of Inl e \<Rightarrow> Inl e | Inr result \<Rightarrow> Inr (concat result))
      = (case collect (map G (map g (filter keep xs))) of
           Inl e \<Rightarrow> Inl e | Inr result \<Rightarrow> Inr (concat result))"
      by simp
    show ?case
    proof (cases "keep x")
      case True
      with Cons.prems(2)[of x] have "F x = G (g x)" by simp
      with True IH show ?thesis
        by (cases "G (g x)") (auto split: sum.splits)
    next
      case False
      with Cons.prems(1)[of x] have "F x = Inr []" by simp
      with False IH show ?thesis
        by (auto split: sum.splits)
    qed
  qed
  then show ?thesis
    by (auto split: sum.splits)
qed

lemma run_all_filter:
  assumes "\<And>x. x \<in> set xs \<Longrightarrow> \<not> keep x \<Longrightarrow> F x = pure ()"
    and "\<And>x. x \<in> set xs \<Longrightarrow> keep x \<Longrightarrow> F x = G (g x)"
  shows "run_all (map F xs) = run_all (map G (map g (filter keep xs)))"
  using assms
proof (induction xs)
  case Nil
  then show ?case by simp
next
  case (Cons x xs)
  then show ?case by (cases "keep x") (simp_all add: io_bind_pure)
qed

lemma scanDirectory_without_hidden:
  "scanDirectory (Some d) dirPath relativePath
     = scanDirectory (Some (without_hidden d)) dirPath relativePath"
proof (induction d arbitrary: dirPath relativePath)
  case (Dir st r es)
  have IH: "scanDirectory (Some entry) dp rp = scanDirectory (Some (without_hidden entry)) dp rp"
    if "(entry_name, entry) \<in> set es" for entry_name entry dp rp
    using Dir.IH[of "(entry_name, entry)" entry] that by simp
  show ?case
  proof (cases r)
    case False
    then show ?thesis by simp
  next
    case True
    then have r: "r = True" by simp
    show ?thesis
      unfolding r without_hidden.simps scanDirectory.simps
      apply (rule collect_filter)
       apply clarsimp
      apply (clarsimp simp: Let_def split: fsentry.splits option.splits)
      apply (drule IH)
      apply simp
      done
  qed
qed simp_all

lemma processDirectory_without_hidden:
  "processDirectory w baseDir (Some d) directory
     = processDirectory w baseDir (Some (without_hidden d)) directory"
proof (induction d arbitrary: directory)
  case (Dir st r es)
  have IH: "processDirectory w baseDir (Some entry) dp
              = processDirectory w baseDir (Some (without_hidden entry)) dp"
    if "(entry_name, entry) \<in> set es" for entry_name entry dp
    using Dir.IH[of "(entry_name, entry)" entry] that by simp
  show ?case
  proof (cases r)
    case False
    then show ?thesis by simp
  next
    case True
    then have r: "r = True" by simp
    show ?thesis
      unfolding r without_hidden.simps processDirectory.simps
      apply (rule run_all_filter)
       apply clarsimp
      apply (clarsimp simp: Let_def split: fsentry.splits)
      apply (drule IH)
      apply simp
      done
  qed
qed simp_all

lemma decimal_2:
  "decimal 2 n = [''0123456789'' ! (n div 10 mod 10), ''0123456789'' ! (n mod 10)]"
  by (simp add: numeral_2_eq_2)

lemma decimal_3:
  "decimal 3 n =
     [''0123456789'' ! (n div 10 div 10 mod 10), ''0123456789'' ! (n div 10 mod 10),
      ''0123456789'' ! (n mod 10)]"
  by (simp add: numeral_3_eq_3)

lemma decimal_4:
  "decimal 4 n =
     [''0123456789'' ! (n div 10 div 10 div 10 mod 10), ''0123456789'' ! (n div 10 div 10 mod 10),
      ''0123456789'' ! (n div 10 mod 10), ''0123456789'' ! (n mod 10)]"
proof -
  have four: "(4::nat) = Suc (Suc (Suc (Suc 0)))" by simp
  show ?thesis by (subst four) simp
qed

lemma civil_from_days_0: "civil_from_days 0 = (1970, 1, 1)"
  by (simp add: civil_from_days_def civil_from_doe_def civil_from_yoe_def civil_from_doy_def
      Let_def)

lemma toISOString_20: "toISOString (TimeValue 20) = Inr ''1970-01-01T00:00:00.020Z''"
  by (simp add: toISOString_def valid_time_def iso_8601_def civil_from_days_0 decimal_2 decimal_3
      decimal_4)

lemmas upload_eval =
  S3Service_uploadFile_def S3Service_isFileAccessible_def S3Service_getObjectMetadata_def
  syncFile_def stat_def readFile_def lookup_def io_bind_def io_catch_def pure_def throw_def

subsection \<open>Push of one file\<close>

lemma skip_condition:
  "(case metadata of
      None \<Rightarrow> False
    | Some md \<Rightarrow>
        (case XOriginalMtime md of
           None \<Rightarrow> False
         | Some remote \<Rightarrow> date_le localMtime remote))
   = remote_same_or_newer localMtime metadata"
  by (cases localMtime)
    (simp_all add: remote_same_or_newer_def same_or_later_def
      split: option.splits Date.splits)

lemma isFileAccessible_run:
  "S3Service_isFileAccessible w localFilePath h =
     (Inr (fst (S3Service_isFileAccessible w localFilePath h) = Inr True), h)"
  by (simp add: S3Service_isFileAccessible_def)

lemma stat_run: "stat w localFilePath h = (fst (stat w localFilePath h), h)"
  by (simp add: stat_def)

lemma readFile_run: "readFile w localFilePath h = (fst (readFile w localFilePath h), h)"
  by (simp add: readFile_def)

lemma getObjectMetadata_run:
  "S3Service_getObjectMetadata w key h =
     (fst (S3Service_getObjectMetadata w key h), h @ [S3 (HeadObjectCommand BUCKET_NAME key)])"
  by (simp add: S3Service_getObjectMetadata_cases)

lemma toISOString_valid:
  "toISOString d = (if valid_date d then (case d of TimeValue t \<Rightarrow> Inr (iso_8601 t)) else Inl range_error)"
  by (simp add: toISOString_def valid_date_def split: Date.splits)

text \<open>The part of \<open>uploadFile\<close> that follows the comparison: the \<open>try\<close> block.\<close>

lemma upload_try_run:
  "io_catch
     (io_bind (readFile w localFilePath) (\<lambda>body.
      io_bind (\<lambda>h. (toISOString localMtime, h)) (\<lambda>stamp.
        io_bind
          (\<lambda>h. (case put_object w h
                       (PutObjectCommand BUCKET_NAME key body [(''x-original-mtime'', stamp)]) of
                  None \<Rightarrow> Inr () | Some e \<Rightarrow> Inl e,
                 h @ [S3 (PutObjectCommand BUCKET_NAME key body
                            [(''x-original-mtime'', stamp)])]))
          (\<lambda>_. pure True))))
     (\<lambda>error. pure False) h1 =
   (case (fst (readFile w localFilePath h1), toISOString localMtime) of
      (Inr body, Inr stamp) \<Rightarrow>
        (Inr (put_object w h1
                (PutObjectCommand BUCKET_NAME key body [(''x-original-mtime'', stamp)]) = None),
         h1 @ [S3 (PutObjectCommand BUCKET_NAME key body [(''x-original-mtime'', stamp)])])
    | _ \<Rightarrow> (Inr False, h1))"
  by (subst io_catch_apply, subst io_bind_apply, subst readFile_run)
    (simp add: io_apply split: sum.splits option.splits)

lemma uploadFile_run:
  "S3Service_uploadFile w localFilePath relativePath h =
     (if fst (S3Service_isFileAccessible w localFilePath h) \<noteq> Inr True then (Inr False, h)
      else
        (case fst (stat w localFilePath h) of
           Inl e \<Rightarrow> (Inl e, h)
         | Inr localStat \<Rightarrow>
             (case fst (S3Service_getObjectMetadata w (dropLeadingSlash relativePath) h) of
                Inl e \<Rightarrow> (Inl e, h @ [S3 (HeadObjectCommand BUCKET_NAME
                                             (dropLeadingSlash relativePath))])
              | Inr metadata \<Rightarrow>
                  if remote_same_or_newer (mtime localStat) metadata
                  then (Inr False, h @ [S3 (HeadObjectCommand BUCKET_NAME
                                              (dropLeadingSlash relativePath))])
                  else
                    (case (fst (readFile w localFilePath
                                  (h @ [S3 (HeadObjectCommand BUCKET_NAME
                                              (dropLeadingSlash relativePath))])),
                           toISOString (mtime localStat)) of
                       (Inr body, Inr stamp) \<Rightarrow>
                         (Inr (put_object w
                                 (h @ [S3 (HeadObjectCommand BUCKET_NAME
                                             (dropLeadingSlash relativePath))])
                                 (PutObjectCommand BUCKET_NAME (dropLeadingSlash relativePath)
                                    body [(''x-original-mtime'', stamp)]) = None),
                          h @ [S3 (HeadObjectCommand BUCKET_NAME (dropLeadingSlash relativePath)),
                               S3 (PutObjectCommand BUCKET_NAME (dropLeadingSlash relativePath)
                                     body [(''x-original-mtime'', stamp)])])
                     | _ \<Rightarrow> (Inr False, h @ [S3 (HeadObjectCommand BUCKET_NAME
                                                    (dropLeadingSlash relativePath))])))))"
proof -
  let ?key = "dropLeadingSlash relativePath"
  let ?h1 = "h @ [S3 (HeadObjectCommand BUCKET_NAME ?key)]"
  show ?thesis
  proof (cases "fst (S3Service_isFileAccessible w localFilePath h) = Inr True")
    case False
    then have "S3Service_isFileAccessible w localFilePath h = (Inr False, h)"
      by (subst isFileAccessible_run) simp
    with False show ?thesis
      by (simp add: S3Service_uploadFile_def io_bind_apply pure_apply)
  next
    case True
    then have acc: "S3Service_isFileAccessible w localFilePath h = (Inr True, h)"
      by (subst isFileAccessible_run) simp
    show ?thesis
    proof (cases "fst (stat w localFilePath h)")
      case (Inl e)
      then have "stat w localFilePath h = (Inl e, h)"
        by (subst stat_run) simp
      with True Inl acc show ?thesis
        by (simp add: S3Service_uploadFile_def Let_def io_bind_apply)
    next
      case (Inr localStat)
      then have st: "stat w localFilePath h = (Inr localStat, h)"
        by (subst stat_run) simp
      show ?thesis
      proof (cases "fst (S3Service_getObjectMetadata w ?key h)")
        case (Inl e)
        then have "S3Service_getObjectMetadata w ?key h = (Inl e, ?h1)"
          by (subst getObjectMetadata_run) simp
        with True Inr Inl acc st show ?thesis
          by (simp add: S3Service_uploadFile_def Let_def io_bind_apply)
      next
        case md: (Inr metadata)
        then have "S3Service_getObjectMetadata w ?key h = (Inr metadata, ?h1)"
          by (subst getObjectMetadata_run) simp
        with True Inr md acc st show ?thesis
          unfolding S3Service_uploadFile_def Let_def skip_condition upload_try_run
          by (simp add: io_bind_apply pure_apply split: sum.splits)
      qed
    qed
  qed
qed

lemma uploadFile_put_spec:
  "snd (S3Service_uploadFile w localFilePath relativePath h) =
     put_spec w localFilePath (dropLeadingSlash relativePath) h"
proof (cases "lookup w h localFilePath")
  case None
  then show ?thesis
    by (simp add: uploadFile_run put_spec_def S3Service_isFileAccessible_def)
next
  case (Some entry)
  show ?thesis
  proof (cases "is_directory entry \<or> \<not> openable entry")
    case True
    with Some show ?thesis
      by (cases entry) (simp_all add: uploadFile_run put_spec_def S3Service_isFileAccessible_def)
  next
    case False
    with Some have acc: "fst (S3Service_isFileAccessible w localFilePath h) = Inr True"
      by (cases entry) (simp_all add: S3Service_isFileAccessible_def)
    have rb: "(case fst (readFile w localFilePath h') of Inl e \<Rightarrow> None | Inr b \<Rightarrow> Some b)
                = readable_bytes (lookup w h' localFilePath)" for h'
      by (simp add: readFile_def split: option.splits fsentry.splits)
    show ?thesis
    proof (cases "stat_result entry")
      case None
      with Some False acc show ?thesis
        by (simp add: uploadFile_run put_spec_def stat_def)
    next
      case st: (Some stats)
      with Some have stat: "fst (stat w localFilePath h) = Inr stats"
        by (simp add: stat_def)
      show ?thesis
        using Some False st rb [of "h @ [S3 (HeadObjectCommand BUCKET_NAME
                                               (dropLeadingSlash relativePath))]", symmetric]
        by (simp add: uploadFile_run put_spec_def acc stat S3Service_getObjectMetadata_cases
            remote_same_or_newer_def origin_mtime_def Let_def
            split: sum.splits option.splits)
    qed
  qed
qed

lemma syncFile_put_spec:
  "syncFile w filePath baseDir h = (Inr (), put_spec w filePath (key_for w baseDir filePath) h)"
proof -
  have "syncFile w filePath baseDir h =
          (Inr (), snd (S3Service_uploadFile w filePath
                          (backslashToSlash (path_relative (cwd w) baseDir filePath)) h))"
    by (simp add: syncFile_def Let_def io_apply split: prod.splits sum.splits)
  then show ?thesis
    by (simp add: uploadFile_put_spec key_for_def)
qed

text \<open>
  C3 as stated fails for a local file whose modification time is no valid date: the file
  can be opened and read and the store holds no such object, so the claim has the file
  uploaded with its modification time in ISO-8601. There is no such text: \<open>toISOString\<close>
  throws inside the \<open>try\<close> block, \<open>uploadFile\<close> returns false and nothing is uploaded.
\<close>

theorem uploadFile_invalid_mtime_counterexample:
  "fst (S3Service_isFileAccessible world_invalid_mtime ''/data/f.txt'' []) = Inr True
   \<and> fst (readFile world_invalid_mtime ''/data/f.txt'' []) = Inr ''x''
   \<and> fst (S3Service_getObjectMetadata world_invalid_mtime ''f.txt'' []) = Inr None
   \<and> S3Service_uploadFile world_invalid_mtime ''/data/f.txt'' ''f.txt'' [] =
       (Inr False, [S3 (HeadObjectCommand ''9527'' ''f.txt'')])"
  by (simp add: upload_eval toISOString_def world_invalid_mtime_def world0_def
      not_found_error_def BUCKET_NAME_def path_eval Let_def)

text \<open>
  C3, as the code has it. A file that does not pass the lock probe is skipped:
  \<open>uploadFile\<close> returns false and sends nothing. For a file that passes it, a failing
  \<open>stat\<close> or a failing metadata probe makes \<open>uploadFile\<close> fail with that error, and
  nothing is uploaded. When \<open>stat\<close> gives the local modification time and the probe
  answers: if the remote object carries an origin modification time that is the local
  modification time or later, the upload is skipped, without error and with nothing
  written to the store. Otherwise, when the file's bytes can be read and the local
  modification time is a valid date, one \<open>PutObjectCommand\<close> is sent for the key, with
  the file's bytes as body and the local modification time in ISO-8601 as
  \<open>x-original-mtime\<close> metadata, and the result says whether the store accepted it; when
  the bytes cannot be read or the local modification time is no valid date, nothing is
  uploaded and the result is false.
\<close>

theorem uploadFile_last_writer_wins:
  "(fst (S3Service_isFileAccessible w localFilePath h) = Inr False \<longrightarrow>
      S3Service_uploadFile w localFilePath relativePath h = (Inr False, h))
   \<and> (fst (S3Service_isFileAccessible w localFilePath h) = Inr True
        \<and> fst (stat w localFilePath h) = Inl e \<longrightarrow>
      S3Service_uploadFile w localFilePath relativePath h = (Inl e, h))
   \<and> (fst (S3Service_isFileAccessible w localFilePath h) = Inr True
        \<and> fst (stat w localFilePath h) = Inr localStat
        \<and> fst (S3Service_getObjectMetadata w (dropLeadingSlash relativePath) h) = Inl e \<longrightarrow>
      S3Service_uploadFile w localFilePath relativePath h =
        (Inl e, h @ [S3 (HeadObjectCommand BUCKET_NAME (dropLeadingSlash relativePath))]))
   \<and> (fst (S3Service_isFileAccessible w localFilePath h) = Inr True
        \<and> fst (stat w localFilePath h) = Inr localStat
        \<and> fst (S3Service_getObjectMetadata w (dropLeadingSlash relativePath) h) = Inr metadata
      \<longrightarrow>
        (remote_same_or_newer (mtime localStat) metadata \<longrightarrow>
           S3Service_uploadFile w localFilePath relativePath h =
             (Inr False, h @ [S3 (HeadObjectCommand BUCKET_NAME (dropLeadingSlash relativePath))]))
      \<and> (\<not> remote_same_or_newer (mtime localStat) metadata \<longrightarrow>
           (\<forall>body t.
              fst (readFile w localFilePath
                     (h @ [S3 (HeadObjectCommand BUCKET_NAME (dropLeadingSlash relativePath))]))
                = Inr body
              \<and> mtime localStat = TimeValue t \<and> valid_time t \<longrightarrow>
              S3Service_uploadFile w localFilePath relativePath h =
                (Inr (put_object w
                        (h @ [S3 (HeadObjectCommand BUCKET_NAME (dropLeadingSlash relativePath))])
                        (PutObjectCommand BUCKET_NAME (dropLeadingSlash relativePath) body
                           [(''x-original-mtime'', iso_8601 t)]) = None),
                 h @ [S3 (HeadObjectCommand BUCKET_NAME (dropLeadingSlash relativePath)),
                      S3 (PutObjectCommand BUCKET_NAME (dropLeadingSlash relativePath) body
                            [(''x-original-mtime'', iso_8601 t)])]))
         \<and> (isl (fst (readFile w localFilePath
                         (h @ [S3 (HeadObjectCommand BUCKET_NAME
                                     (dropLeadingSlash relativePath))])))
              \<or> \<not> valid_date (mtime localStat) \<longrightarrow>
            S3Service_uploadFile w localFilePath relativePath h =
              (Inr False,
               h @ [S3 (HeadObjectCommand BUCKET_NAME (dropLeadingSlash relativePath))]))))"
proof (intro conjI impI allI)
  assume "fst (S3Service_isFileAccessible w localFilePath h) = Inr False"
  then show "S3Service_uploadFile w localFilePath relativePath h = (Inr False, h)"
    by (simp add: uploadFile_run)
next
  assume "fst (S3Service_isFileAccessible w localFilePath h) = Inr True
        \<and> fst (stat w localFilePath h) = Inl e"
  then show "S3Service_uploadFile w localFilePath relativePath h = (Inl e, h)"
    by (simp add: uploadFile_run)
next
  assume "fst (S3Service_isFileAccessible w localFilePath h) = Inr True
        \<and> fst (stat w localFilePath h) = Inr localStat
        \<and> fst (S3Service_getObjectMetadata w (dropLeadingSlash relativePath) h) = Inl e"
  then show "S3Service_uploadFile w localFilePath relativePath h =
        (Inl e, h @ [S3 (HeadObjectCommand BUCKET_NAME (dropLeadingSlash relativePath))])"
    by (simp add: uploadFile_run)
next
  assume "fst (S3Service_isFileAccessible w localFilePath h) = Inr True
        \<and> fst (stat w localFilePath h) = Inr localStat
        \<and> fst (S3Service_getObjectMetadata w (dropLeadingSlash relativePath) h) = Inr metadata"
    and "remote_same_or_newer (mtime localStat) metadata"
  then show "S3Service_uploadFile w localFilePath relativePath h =
             (Inr False, h @ [S3 (HeadObjectCommand BUCKET_NAME (dropLeadingSlash relativePath))])"
    by (simp add: uploadFile_run)
next
  fix body t
  assume "fst (S3Service_isFileAccessible w localFilePath h) = Inr True
        \<and> fst (stat w localFilePath h) = Inr localStat
        \<and> fst (S3Service_getObjectMetadata w (dropLeadingSlash relativePath) h) = Inr metadata"
    and "\<not> remote_same_or_newer (mtime localStat) metadata"
    and "fst (readFile w localFilePath
                     (h @ [S3 (HeadObjectCommand BUCKET_NAME (dropLeadingSlash relativePath))]))
                = Inr body
              \<and> mtime localStat = TimeValue t \<and> valid_time t"
  then show "S3Service_uploadFile w localFilePath relativePath h =
                (Inr (put_object w
                        (h @ [S3 (HeadObjectCommand BUCKET_NAME (dropLeadingSlash relativePath))])
                        (PutObjectCommand BUCKET_NAME (dropLeadingSlash relativePath) body
                           [(''x-original-mtime'', iso_8601 t)]) = None),
                 h @ [S3 (HeadObjectCommand BUCKET_NAME (dropLeadingSlash relativePath)),
                      S3 (PutObjectCommand BUCKET_NAME (dropLeadingSlash relativePath) body
                            [(''x-original-mtime'', iso_8601 t)])])"
    by (simp add: uploadFile_run toISOString_def)
next
  assume "fst (S3Service_isFileAccessible w localFilePath h) = Inr True
        \<and> fst (stat w localFilePath h) = Inr localStat
        \<and> fst (S3Service_getObjectMetadata w (dropLeadingSlash relativePath) h) = Inr metadata"
    and "\<not> remote_same_or_newer (mtime localStat) metadata"
    and "isl (fst (readFile w localFilePath
                         (h @ [S3 (HeadObjectCommand BUCKET_NAME
                                     (dropLeadingSlash relativePath))])))
              \<or> \<not> valid_date (mtime localStat)"
  then show "S3Service_uploadFile w localFilePath relativePath h =
              (Inr False,
               h @ [S3 (HeadObjectCommand BUCKET_NAME (dropLeadingSlash relativePath))])"
    by (auto simp: uploadFile_run toISOString_valid isl_def split: sum.splits)
qed

lemma lookup_a_txt:
  "lookup world_hidden h ''/data/a.txt'' = Some (File (Some (file_stats 2 80)) True (Some ''ab''))"
  by (simp add: lookup_def world_hidden_def world0_def tree_hidden_def path_eval)

lemma iso_8601_80: "iso_8601 80 = ''1970-01-01T00:00:00.080Z''"
  by (simp add: iso_8601_def civil_from_days_0 decimal_2 decimal_3 decimal_4)

theorem uploadFile_last_writer_wins_witness:
  "S3Service_uploadFile world_locked ''/data/f.txt'' ''f.txt'' [] = (Inr False, [])
   \<and> remote_same_or_newer (TimeValue 50)
       (Some \<lparr>LastModified = Some (TimeValue 40), ETag = None,
              XOriginalMtime = Some (TimeValue 90)\<rparr>)
   \<and> S3Service_uploadFile world_fresh_origin ''/data/a.txt'' ''a.txt'' [] =
       (Inr False, [S3 (HeadObjectCommand ''9527'' ''a.txt'')])
   \<and> \<not> remote_same_or_newer (TimeValue 80) None
   \<and> S3Service_uploadFile world_hidden ''/data/a.txt'' ''a.txt'' [] =
       (Inr True,
        [S3 (HeadObjectCommand ''9527'' ''a.txt''),
         S3 (PutObjectCommand ''9527'' ''a.txt'' ''ab''
               [(''x-original-mtime'', ''1970-01-01T00:00:00.080Z'')])])"
proof -
  have k: "dropLeadingSlash ''a.txt'' = ''a.txt''" "dropLeadingSlash ''f.txt'' = ''f.txt''"
    by (simp_all add: dropLeadingSlash_def startsWith_def)
  have locked: "fst (S3Service_isFileAccessible world_locked ''/data/f.txt'' []) = Inr False"
    by (simp add: S3Service_isFileAccessible_def lookup_def world_locked_def world0_def
        path_eval)
  have 1: "S3Service_uploadFile world_locked ''/data/f.txt'' ''f.txt'' [] = (Inr False, [])"
    using uploadFile_last_writer_wins
            [of world_locked "''/data/f.txt''" "[]" "''f.txt''" undefined undefined undefined]
      locked
    by blast
  have fa: "fst (S3Service_isFileAccessible world_fresh_origin ''/data/a.txt'' []) = Inr True"
    and fb: "fst (stat world_fresh_origin ''/data/a.txt'' []) = Inr (file_stats 5 50)"
    and fc: "fst (S3Service_getObjectMetadata world_fresh_origin (dropLeadingSlash ''a.txt'') [])
               = Inr (Some \<lparr>LastModified = Some (TimeValue 40), ETag = None,
                            XOriginalMtime = Some (TimeValue 90)\<rparr>)"
    by (simp_all add: S3Service_isFileAccessible_def stat_def lookup_def
        S3Service_getObjectMetadata_cases world_fresh_origin_def world_stale_origin_def
        world0_def path_eval k)
  have fd: "remote_same_or_newer (mtime (file_stats 5 50))
              (Some \<lparr>LastModified = Some (TimeValue 40), ETag = None,
                     XOriginalMtime = Some (TimeValue 90)\<rparr>)"
    by (simp add: remote_same_or_newer_def same_or_later_def file_stats_def)
  have 2: "S3Service_uploadFile world_fresh_origin ''/data/a.txt'' ''a.txt'' [] =
             (Inr False, [] @ [S3 (HeadObjectCommand BUCKET_NAME (dropLeadingSlash ''a.txt''))])"
    using uploadFile_last_writer_wins
            [of world_fresh_origin "''/data/a.txt''" "[]" "''a.txt''" undefined
                "file_stats 5 50"
                "Some \<lparr>LastModified = Some (TimeValue 40), ETag = None,
                       XOriginalMtime = Some (TimeValue 90)\<rparr>"]
      fa fb fc fd
    by blast
  have head_hidden: "head_object world_hidden hh key = Inl not_found_error" for hh key
    by (simp add: world_hidden_def world0_def)
  have ha: "fst (S3Service_isFileAccessible world_hidden ''/data/a.txt'' []) = Inr True"
    and hb: "fst (stat world_hidden ''/data/a.txt'' []) = Inr (file_stats 2 80)"
    and hc: "fst (S3Service_getObjectMetadata world_hidden (dropLeadingSlash ''a.txt'') [])
               = Inr None"
    and hd: "fst (readFile world_hidden ''/data/a.txt''
                    ([] @ [S3 (HeadObjectCommand BUCKET_NAME (dropLeadingSlash ''a.txt''))]))
               = Inr ''ab''"
    by (simp_all add: S3Service_isFileAccessible_def stat_def readFile_def lookup_a_txt
        S3Service_getObjectMetadata_cases head_hidden is_not_found_def not_found_error_def)
  have he: "\<not> remote_same_or_newer (mtime (file_stats 2 80)) None"
    "mtime (file_stats 2 80) = TimeValue 80" "valid_time 80"
    by (simp_all add: remote_same_or_newer_def file_stats_def valid_time_def)
  have 3: "S3Service_uploadFile world_hidden ''/data/a.txt'' ''a.txt'' [] =
             (Inr (put_object world_hidden
                     ([] @ [S3 (HeadObjectCommand BUCKET_NAME (dropLeadingSlash ''a.txt''))])
                     (PutObjectCommand BUCKET_NAME (dropLeadingSlash ''a.txt'') ''ab''
                        [(''x-original-mtime'', iso_8601 80)]) = None),
              [] @ [S3 (HeadObjectCommand BUCKET_NAME (dropLeadingSlash ''a.txt'')),
                    S3 (PutObjectCommand BUCKET_NAME (dropLeadingSlash ''a.txt'') ''ab''
                          [(''x-original-mtime'', iso_8601 80)])])"
    using uploadFile_last_writer_wins
            [of world_hidden "''/data/a.txt''" "[]" "''a.txt''" undefined "file_stats 2 80" None]
      ha hb hc hd he
    by blast
  have p: "put_object world_hidden hh c = None" for hh c
    by (simp add: world_hidden_def world0_def)
  from 1 2 3 show ?thesis
    by (simp add: k p BUCKET_NAME_def iso_8601_80 remote_same_or_newer_def same_or_later_def)
qed

subsection \<open>The pull pass compares the store's write time\<close>

lemmas pull_eval =
  pullAllFilesFromS3_def pullFile_def S3Service_listFiles_def S3Service_getObjectMetadata_def
  S3Service_downloadFile_def existsSync_def stat_def fs_do_def lookup_def io_bind_def
  io_catch_def pure_def throw_def

text \<open>
  C1 evaluated. The local file was modified at 50. In the first world the remote object's
  origin modification time is 10, earlier than the local file, and the pull downloads it
  and writes over the local file, because the store wrote the object at 100. In the second
  world the origin modification time is 90, later than the local file, and the pull
  does not download, because the store wrote the object at 40.
\<close>

theorem pull_ignores_origin_mtime:
  "fst (S3Service_getObjectMetadata world_stale_origin ''a.txt'' []) =
     Inr (Some \<lparr>LastModified = Some (TimeValue 100), ETag = None,
                XOriginalMtime = Some (TimeValue 10)\<rparr>)
   \<and> fst (stat world_stale_origin ''/data/a.txt'' []) = Inr (file_stats 5 50)
   \<and> snd (pullAllFilesFromS3 world_stale_origin ''/data'' []) =
       [S3 (ListObjectsV2Command ''9527''), S3 (HeadObjectCommand ''9527'' ''a.txt''),
        S3 (GetObjectCommand ''9527'' ''a.txt''), FS (WriteFile ''/data/a.txt'' ''remote'')]
   \<and> fst (S3Service_getObjectMetadata world_fresh_origin ''a.txt'' []) =
     Inr (Some \<lparr>LastModified = Some (TimeValue 40), ETag = None,
                XOriginalMtime = Some (TimeValue 90)\<rparr>)
   \<and> fst (stat world_fresh_origin ''/data/a.txt'' []) = Inr (file_stats 5 50)
   \<and> snd (pullAllFilesFromS3 world_fresh_origin ''/data'' []) =
       [S3 (ListObjectsV2Command ''9527''), S3 (HeadObjectCommand ''9527'' ''a.txt'')]"
  by (simp add: pull_eval world_stale_origin_def world_fresh_origin_def world0_def
      file_stats_def BUCKET_NAME_def path_eval Let_def)

text \<open>
  C5 evaluated. The remote object carries no origin modification time at all; a local
  file exists; the pull downloads the object and writes over the local file.
\<close>

theorem pull_overwrites_without_origin_mtime:
  "fst (S3Service_getObjectMetadata world_foreign_object ''a.txt'' []) =
     Inr (Some \<lparr>LastModified = Some (TimeValue 100), ETag = None, XOriginalMtime = None\<rparr>)
   \<and> fst (existsSync world_foreign_object ''/data/a.txt'' []) = Inr True
   \<and> snd (pullAllFilesFromS3 world_foreign_object ''/data'' []) =
       [S3 (ListObjectsV2Command ''9527''), S3 (HeadObjectCommand ''9527'' ''a.txt''),
        S3 (GetObjectCommand ''9527'' ''a.txt''), FS (WriteFile ''/data/a.txt'' ''remote'')]"
  by (simp add: pull_eval world_foreign_object_def world_stale_origin_def world0_def
      file_stats_def BUCKET_NAME_def path_eval Let_def)

subsection \<open>The ready event\<close>

















subsection \<open>Hidden files and the delete enumeration\<close>

text \<open>
  C10 as stated fails in its last clause: the engine does upload a dotfile. Importing
  \<open>/src/.env\<close> copies it into the user files directory and emits \<open>add\<close> for
  \<open>/data/.env\<close>; the second task of the \<open>add\<close> listener, the single-file push, then
  sends the file to the store.
\<close>

theorem add_listener_uploads_dotfile_counterexample:
  "import_file world_import ''/src/.env'' ''/'' [] =
     (Inr succeeded, [FS (CopyFile ''/src/.env'' ''/data/.env''), Emit ''add'' ''/data/.env''])
   \<and> snd ((on_add world_import ''/data/.env'' ! 1)
           [FS (CopyFile ''/src/.env'' ''/data/.env''), Emit ''add'' ''/data/.env'']) =
       [FS (CopyFile ''/src/.env'' ''/data/.env''), Emit ''add'' ''/data/.env'',
        S3 (HeadObjectCommand ''9527'' ''.env''),
        S3 (PutObjectCommand ''9527'' ''.env'' ''e''
              [(''x-original-mtime'', ''1970-01-01T00:00:00.020Z'')])]"
  by (simp add: import_file_def on_add_def existsSync_def fs_do_def tell_def upload_eval
      world_import_def world0_def file_stats_def not_found_error_def BUCKET_NAME_def
      succeeded_def path_eval path_basename_def toISOString_20 Let_def)

text \<open>
  C10, as the code has it. The enumeration that \<open>delete-item\<close> uses has no test on
  names: an entry that is not a directory contributes its key whatever its name, so the
  enumeration is, at every depth, the relative keys of all the files reached through
  listable directories, dotfiles included, and the handler sends a remote delete for each
  of them. The scan and the push-all pass skip hidden entries: both give, at every depth,
  what they give on the tree without the entries whose name begins with a dot, so the
  scan never lists a dotfile and the push-all pass never uploads one. The single-file
  push that the \<open>add\<close> listener starts has no such test: it does for every path,
  hidden or not, what \<open>put\<close> does for the file and its relative key.
\<close>

theorem getAllFilesInDirectory_keeps_dotfiles:
  "(\<not> is_directory e \<longrightarrow>
      getAllFilesInDirectory (Some (Dir st True (es1 @ (n, e) # es2))) dirPath base
        = getAllFilesInDirectory (Some (Dir st True es1)) dirPath base
          @ [backslashToSlash (path_join [base, n])]
          @ getAllFilesInDirectory (Some (Dir st True es2)) dirPath base)
   \<and> getAllFilesInDirectory (Some d) dirPath base = map (key_of base) (reachable_files d)
   \<and> (lookup w h (path_join [userFilesDir w, dropLeadingSlash itemPath]) = Some d
        \<and> stat_result d = Some stats \<and> isDirectory stats \<and> names \<in> set (reachable_files d)
      \<longrightarrow> S3 (DeleteObjectCommand BUCKET_NAME
                (dropLeadingSlash (key_of (dropLeadingSlash itemPath) names)))
            \<in> set (snd (delete_item w itemPath h)))
   \<and> scanDirectory (Some d) dirPath relativePath
       = scanDirectory (Some (without_hidden d)) dirPath relativePath
   \<and> processDirectory w baseDir (Some d) directory
       = processDirectory w baseDir (Some (without_hidden d)) directory
   \<and> (on_add w filePath ! 1) h =
       (Inr (), put_spec w filePath (key_for w (userFilesDir w) filePath) h)"
proof (intro conjI impI)
  assume "\<not> is_directory e"
  then show "getAllFilesInDirectory (Some (Dir st True (es1 @ (n, e) # es2))) dirPath base
        = getAllFilesInDirectory (Some (Dir st True es1)) dirPath base
          @ [backslashToSlash (path_join [base, n])]
          @ getAllFilesInDirectory (Some (Dir st True es2)) dirPath base"
    by (cases e) (simp_all add: Let_def)
next
  show "getAllFilesInDirectory (Some d) dirPath base = map (key_of base) (reachable_files d)"
    by (rule getAllFilesInDirectory_keys)
next
  assume a: "lookup w h (path_join [userFilesDir w, dropLeadingSlash itemPath]) = Some d
        \<and> stat_result d = Some stats \<and> isDirectory stats \<and> names \<in> set (reachable_files d)"
  then have "snd (delete_item w itemPath h) =
      h @ map (\<lambda>names. S3 (DeleteObjectCommand BUCKET_NAME
                              (dropLeadingSlash (key_of (dropLeadingSlash itemPath) names))))
            (reachable_files d)
        @ [FS (Rm (path_join [userFilesDir w, dropLeadingSlash itemPath]))]"
    using delete_item_directory_run [of w h itemPath d stats] by simp
  with a show "S3 (DeleteObjectCommand BUCKET_NAME
                (dropLeadingSlash (key_of (dropLeadingSlash itemPath) names)))
            \<in> set (snd (delete_item w itemPath h))"
    by simp
next
  show "scanDirectory (Some d) dirPath relativePath
       = scanDirectory (Some (without_hidden d)) dirPath relativePath"
    by (rule scanDirectory_without_hidden)
next
  show "processDirectory w baseDir (Some d) directory
       = processDirectory w baseDir (Some (without_hidden d)) directory"
    by (rule processDirectory_without_hidden)
next
  show "(on_add w filePath ! 1) h =
       (Inr (), put_spec w filePath (key_for w (userFilesDir w) filePath) h)"
    by (simp add: on_add_def syncFile_put_spec)
qed

theorem getAllFilesInDirectory_keeps_dotfiles_witness:
  "[''sub'', ''.secret''] \<in> set (reachable_files tree_nested)
   \<and> startsWith ''.secret'' ''.''
   \<and> S3 (DeleteObjectCommand ''9527'' ''docs/sub/.secret'')
       \<in> set (snd (delete_item world_nested ''/docs'' []))
   \<and> without_hidden tree_nested =
       Dir (Some dir_stats) True
         [(''readme.txt'', File (Some (file_stats 5 50)) True (Some ''hello'')),
          (''sub'', Dir (Some dir_stats) True
             [(''deep.txt'', File (Some (file_stats 1 60)) True (Some ''d''))])]
   \<and> scanDirectory (Some tree_nested) ''/data/docs'' ''/docs''
       = scanDirectory (Some (without_hidden tree_nested)) ''/data/docs'' ''/docs''"
proof -
  have m: "[''sub'', ''.secret''] \<in> set (reachable_files tree_nested)"
    by (simp add: tree_nested_def)
  have s: "stat_result tree_nested = Some dir_stats" "isDirectory dir_stats"
    by (simp_all add: tree_nested_def dir_stats_def)
  have k: "dropLeadingSlash (key_of (dropLeadingSlash ''/docs'') [''sub'', ''.secret''])
             = ''docs/sub/.secret''"
    by (simp add: key_of_def path_eval Let_def)
  have wh: "without_hidden tree_nested =
       Dir (Some dir_stats) True
         [(''readme.txt'', File (Some (file_stats 5 50)) True (Some ''hello'')),
          (''sub'', Dir (Some dir_stats) True
             [(''deep.txt'', File (Some (file_stats 1 60)) True (Some ''d''))])]"
    by (simp add: tree_nested_def startsWith_def)
  have d: "startsWith ''.secret'' ''.''" by (simp add: startsWith_def)
  note t = getAllFilesInDirectory_keeps_dotfiles
             [where e = "File None False None" and d = tree_nested and w = world_nested
                and h = "[]" and itemPath = "''/docs''" and stats = dir_stats
                and names = "[''sub'', ''.secret'']" and dirPath = "''/data/docs''"
                and relativePath = "''/docs''"]
  from t lookup_nested m s
  have "S3 (DeleteObjectCommand BUCKET_NAME
               (dropLeadingSlash (key_of (dropLeadingSlash ''/docs'') [''sub'', ''.secret''])))
          \<in> set (snd (delete_item world_nested ''/docs'' []))"
    by blast
  moreover from t
  have "scanDirectory (Some tree_nested) ''/data/docs'' ''/docs''
       = scanDirectory (Some (without_hidden tree_nested)) ''/data/docs'' ''/docs''"
    by blast
  ultimately show ?thesis
    using m d wh by (simp only: k BUCKET_NAME_def simp_thms)
qed

end
